theory Spec2Isabelle
  imports Complex_Main
begin

section \<open>Double-precision numbers\<close>

text \<open>
  The regression tests compare \<^verbatim>\<open>double\<close> values. A \<^verbatim>\<open>double\<close> is modelled as an
  IEEE 754 binary64 datum: \<open>Finite s m e\<close> stands for \<open>(-1)^s * m * 2^e\<close> (the sign
  is kept on zeros), next to the two infinities and NaN. The canonical finite
  representations have \<open>0 \<le> m < 2^53\<close>, \<open>-1074 \<le> e \<le> 971\<close>, and \<open>2^52 \<le> m\<close> unless
  \<open>e = -1074\<close>. All payloads of NaN are identified: no operation of the tests
  tells them apart.
\<close>

datatype double = Finite bool int int | Infinity bool | NaN

text \<open>The number of binary digits of a positive integer.\<close>

function bitlen :: "int \<Rightarrow> int" where
  "bitlen n = (if n \<le> 0 then 0 else 1 + bitlen (n div 2))"
  by pat_completeness auto
termination
  by (relation "measure nat") auto

declare bitlen.simps [simp del]

text \<open>\<open>scaled n d e\<close> is the fraction \<open>n / (d * 2^e)\<close>, as numerator and denominator.\<close>

definition scaled :: "int \<Rightarrow> int \<Rightarrow> int \<Rightarrow> int \<times> int" where
  "scaled n d e = (if e < 0 then (n * 2 ^ nat (- e), d) else (n, d * 2 ^ nat e))"

text \<open>
  The integer nearest to \<open>n / d\<close> (for \<open>0 \<le> n\<close> and \<open>0 < d\<close>), a tie going to the
  even neighbour.
\<close>

definition rne :: "int \<times> int \<Rightarrow> int" where
  "rne p = (case p of (n, d) \<Rightarrow>
     (let q = n div d; r = n mod d in
      if 2 * r < d then q
      else if d < 2 * r then q + 1
      else if even q then q else q + 1))"

text \<open>
  \<open>fround s n d\<close> is the binary64 value nearest to \<open>(-1)^s * n / d\<close> (for \<open>0 \<le> n\<close>
  and \<open>0 < d\<close>) in the default rounding mode, round to nearest with ties to even:
  the exponent is chosen so that the significand has 53 bits, but never below the
  subnormal exponent -1074, and a result of \<open>2^1024\<close> or more becomes an infinity.
\<close>

definition fround :: "bool \<Rightarrow> int \<Rightarrow> int \<Rightarrow> double" where
  "fround s n d =
     (if n = 0 then Finite s 0 (- 1074)
      else
        (let e1 = bitlen n - bitlen d - 53;
             e2 = (if 2 ^ 53 \<le> fst (scaled n d e1) div snd (scaled n d e1) then e1 + 1 else e1);
             e = max e2 (- 1074);
             q = rne (scaled n d e)
         in if q = 2 ^ 53
            then (if 971 < e + 1 then Infinity s else Finite s (2 ^ 52) (e + 1))
            else (if 971 < e then Infinity s else Finite s q e)))"

text \<open>
  A decimal floating literal of the source text: \<open>Decimal m k\<close> is \<open>m * 10^k\<close>, so
  \<^verbatim>\<open>0.000001\<close> is \<open>Decimal 1 (-6)\<close> and \<^verbatim>\<open>0.66\<close> is \<open>Decimal 66 (-2)\<close>. The compiler
  converts a literal to the nearest \<^verbatim>\<open>double\<close>.
\<close>

datatype decimal = Decimal int int

fun double_of_decimal :: "decimal \<Rightarrow> double" where
  "double_of_decimal (Decimal m k) =
     (if k < 0 then fround (m < 0) \<bar>m\<bar> (10 ^ nat (- k))
      else fround (m < 0) (\<bar>m\<bar> * 10 ^ nat k) 1)"

text \<open>The signed integer \<open>(-1)^s * m * 2^k\<close>.\<close>

definition signed :: "bool \<Rightarrow> int \<Rightarrow> nat \<Rightarrow> int" where
  "signed s m k = (if s then - (m * 2 ^ k) else m * 2 ^ k)"

text \<open>
  Subtraction \<^verbatim>\<open>a - b\<close>: the exact difference of two finite operands is formed over
  their smaller exponent and rounded once; an exact zero difference is \<open>+0\<close>
  except for \<open>(-0) - (+0)\<close>; infinities of equal sign cancel to NaN.
\<close>

fun fsub :: "double \<Rightarrow> double \<Rightarrow> double" where
  "fsub NaN b = NaN"
| "fsub a NaN = NaN"
| "fsub (Infinity s) (Infinity t) = (if s = t then NaN else Infinity s)"
| "fsub (Infinity s) (Finite t m e) = Infinity s"
| "fsub (Finite s m e) (Infinity t) = Infinity (\<not> t)"
| "fsub (Finite s1 m1 e1) (Finite s2 m2 e2) =
     (let e = min e1 e2;
          d = signed s1 m1 (nat (e1 - e)) - signed s2 m2 (nat (e2 - e))
      in if d = 0 then Finite (s1 \<and> \<not> s2) 0 (- 1074)
         else if e < 0 then fround (d < 0) \<bar>d\<bar> (2 ^ nat (- e))
         else fround (d < 0) (\<bar>d\<bar> * 2 ^ nat e) 1)"

text \<open>The absolute value clears the sign; NaN stays NaN.\<close>

fun fabs :: "double \<Rightarrow> double" where
  "fabs (Finite s m e) = Finite False m e"
| "fabs (Infinity s) = Infinity False"
| "fabs NaN = NaN"

text \<open>
  The comparisons \<^verbatim>\<open><\<close> and \<^verbatim>\<open>>=\<close>. Both are false as soon as an operand is NaN, so
  \<^verbatim>\<open>!(x < y)\<close> and \<^verbatim>\<open>x >= y\<close> are different tests.
\<close>

fun flt :: "double \<Rightarrow> double \<Rightarrow> bool" where
  "flt NaN b = False"
| "flt a NaN = False"
| "flt (Infinity s) (Infinity t) = (s \<and> \<not> t)"
| "flt (Infinity s) (Finite t m e) = s"
| "flt (Finite s m e) (Infinity t) = (\<not> t)"
| "flt (Finite s1 m1 e1) (Finite s2 m2 e2) =
     (let e = min e1 e2
      in signed s1 m1 (nat (e1 - e)) < signed s2 m2 (nat (e2 - e)))"

fun fge :: "double \<Rightarrow> double \<Rightarrow> bool" where
  "fge NaN b = False"
| "fge a NaN = False"
| "fge a b = (\<not> flt a b)"


text \<open>
  Negation flips the sign, addition is \<^verbatim>\<open>a + b = a - (-b)\<close>, and a product is the
  exact product rounded once; zero times infinity is NaN.
\<close>

fun fneg :: "double \<Rightarrow> double" where
  "fneg (Finite s m e) = Finite (\<not> s) m e"
| "fneg (Infinity s) = Infinity (\<not> s)"
| "fneg NaN = NaN"

definition fadd :: "double \<Rightarrow> double \<Rightarrow> double" where
  "fadd a b = fsub a (fneg b)"

fun fmul :: "double \<Rightarrow> double \<Rightarrow> double" where
  "fmul NaN b = NaN"
| "fmul a NaN = NaN"
| "fmul (Infinity s) (Infinity t) = Infinity (s \<noteq> t)"
| "fmul (Infinity s) (Finite t m e) = (if m = 0 then NaN else Infinity (s \<noteq> t))"
| "fmul (Finite s m e) (Infinity t) = (if m = 0 then NaN else Infinity (s \<noteq> t))"
| "fmul (Finite s1 m1 e1) (Finite s2 m2 e2) =
     (if e1 + e2 < 0 then fround (s1 \<noteq> s2) (m1 * m2) (2 ^ nat (- (e1 + e2)))
      else fround (s1 \<noteq> s2) (m1 * m2 * 2 ^ nat (e1 + e2)) 1)"

text \<open>
  With these operations \<^verbatim>\<open>double\<close> is an element type for the vector operations
  below: \<open>0\<close> is \<open>+0\<close>, and \<open>+\<close>, \<open>-\<close> and \<open>*\<close> are the rounded operations.
\<close>

instantiation double :: "{zero,plus,minus,times}"
begin

definition zero_double :: double where
  "zero_double = Finite False 0 (- 1074)"

definition plus_double :: "double \<Rightarrow> double \<Rightarrow> double" where
  "plus_double a b = fadd a b"

definition minus_double :: "double \<Rightarrow> double \<Rightarrow> double" where
  "minus_double a b = fsub a b"

definition times_double :: "double \<Rightarrow> double \<Rightarrow> double" where
  "times_double a b = fmul a b"

instance ..

end

text \<open>The real number that the finite datum \<open>Finite s m e\<close> stands for.\<close>

definition real_of_finite :: "bool \<Rightarrow> int \<Rightarrow> int \<Rightarrow> real" where
  "real_of_finite s m e = (if s then - 1 else 1) * real_of_int m * 2 powi e"

section \<open>The reference comparison of \<^verbatim>\<open>regression_tests/testcase.h\<close>\<close>

text \<open>
  \<^verbatim>\<open>isEqual(a, b)\<close> returns \<^verbatim>\<open>abs(a - b) < 0.000001\<close>, where \<^verbatim>\<open>abs\<close> is taken to be
  the floating-point absolute value, as the documentation of the function says
  ("equal within a tolerance of 0.000001").
\<close>

definition tolerance :: double where
  "tolerance = double_of_decimal (Decimal 1 (- 6))"

definition isEqual :: "double \<Rightarrow> double \<Rightarrow> bool" where
  "isEqual a b = flt (fabs (fsub a b)) tolerance"

text \<open>The decimal digits that \<^verbatim>\<open>std::cout << i\<close> prints for an index.\<close>

fun string_of_nat :: "nat \<Rightarrow> string" where
  "string_of_nat n =
     (if n < 10 then [''0123456789'' ! n]
      else string_of_nat (n div 10) @ [''0123456789'' ! (n mod 10)])"

declare string_of_nat.simps [simp del]

text \<open>
  The members of \<^verbatim>\<open>Testcase\<close> that the comparison uses. A smart pointer that has
  not been assigned is \<open>None\<close>. The other members point to objects of the
  simulation framework.
\<close>

record Testcase =
  m_gridname :: string
  m_reference :: string
  m_spSolution :: "double list option"
  m_spReference :: "double list option"

text \<open>
  A file is modelled by the sequence of numbers that
  \<^verbatim>\<open>std::istream_iterator<double>\<close> extracts from it. A file that cannot be opened
  yields no number at all: \<^verbatim>\<open>read_reference\<close> does not test the stream.
\<close>

type_synonym files = "string \<rightharpoonup> double list"

definition read_reference :: "files \<Rightarrow> Testcase \<Rightarrow> Testcase" where
  "read_reference fs tc =
     tc\<lparr>m_spReference := Some (case fs (m_reference tc) of None \<Rightarrow> [] | Some xs \<Rightarrow> xs)\<rparr>"

text \<open>
  What a call of \<^verbatim>\<open>compare()\<close> does: how it ends, the lines it prints, and the
  indices at which it has read both vectors, in order. \<^verbatim>\<open>operator[]\<close> of
  \<^verbatim>\<open>std::vector\<close> is unchecked, so a read past the end of the reference is not
  defined by the language; the model stops there with \<open>OutOfBounds\<close>. The counter
  \<^verbatim>\<open>i\<close> is a \<^verbatim>\<open>size_t\<close> below the size of a vector, so it does not wrap around.
\<close>

datatype outcome = Returned bool | OutOfBounds nat | NullPointer

record comparison =
  outcome :: outcome
  printed :: "string list"
  reads :: "nat list"

function compare_loop :: "nat \<Rightarrow> double list \<Rightarrow> double list \<Rightarrow> nat list \<Rightarrow> comparison" where
  "compare_loop i sol rf rd =
     (if i < length sol then
        (if i < length rf then
           (if \<not> isEqual (sol ! i) (rf ! i)
            then \<lparr>outcome = Returned False,
                  printed = [''Not equal at '' @ string_of_nat i],
                  reads = rd @ [i]\<rparr>
            else compare_loop (Suc i) sol rf (rd @ [i]))
         else \<lparr>outcome = OutOfBounds i, printed = [], reads = rd\<rparr>)
      else \<lparr>outcome = Returned True, printed = [], reads = rd\<rparr>)"
  by pat_completeness auto
termination
  by (relation "measure (\<lambda>(i, sol, rf, rd). length sol - i)") auto

declare compare_loop.simps [simp del]

text \<open>
  \<^verbatim>\<open>compare()\<close> first reads the reference file, then runs the loop. The only
  member it changes is \<^verbatim>\<open>m_spReference\<close>, as \<open>read_reference\<close> says.
\<close>

definition compare :: "files \<Rightarrow> Testcase \<Rightarrow> comparison" where
  "compare fs tc =
     (case m_spSolution (read_reference fs tc) of
        None \<Rightarrow> \<lparr>outcome = NullPointer, printed = [], reads = []\<rparr>
      | Some sol \<Rightarrow>
          (case m_spReference (read_reference fs tc) of
             None \<Rightarrow> \<lparr>outcome = NullPointer, printed = [], reads = []\<rparr>
           | Some rf \<Rightarrow> compare_loop 0 sol rf []))"

section \<open>The base test case and the Laplace test case\<close>

text \<open>The constructor of \<^verbatim>\<open>Testcase\<close> stores the two file names.\<close>

definition new_Testcase :: "string \<Rightarrow> string \<Rightarrow> Testcase" where
  "new_Testcase grid reference =
     \<lparr>m_gridname = grid, m_reference = reference,
      m_spSolution = None, m_spReference = None\<rparr>"

datatype ug_error = UGError string

text \<open>
  Modelled from the spec: the macro \<^verbatim>\<open>UG_THROW\<close> belongs to the simulation
  framework and is not part of these sources. It signals a fatal error that
  carries the given message; control does not come back to the caller.
\<close>

definition UG_THROW :: "string \<Rightarrow> ug_error + 'a" where
  "UG_THROW msg = Inl (UGError msg)"

text \<open>\<^verbatim>\<open>Testcase::run()\<close>, the stub of the base class.\<close>

definition Testcase_run :: "Testcase \<Rightarrow> ug_error + unit" where
  "Testcase_run tc = UG_THROW ''run() function of testcase not implemented.''"

text \<open>
  The test cases drive the framework through its interface. A call of the
  framework is recorded by the name of the constructor, function or method and
  by its arguments as the source writes them: integer, string, floating and
  boolean literals, and objects built before, named by the variable that holds
  them.
\<close>

datatype arg = IntArg int | StrArg string | NumArg decimal | BoolArg bool | ObjArg string

datatype call = Call string "arg list"

text \<open>
  \<^verbatim>\<open>refine(numRefs)\<close> builds a refiner and runs
  \<^verbatim>\<open>for (int i = 0; i < numRefs; i++) ref.refine();\<close>. The counter stays at most
  \<^verbatim>\<open>numRefs\<close>, so it never leaves the range of \<^verbatim>\<open>int\<close>.
\<close>

function refine_loop :: "int \<Rightarrow> int \<Rightarrow> call list" where
  "refine_loop i numRefs =
     (if i < numRefs then Call ''GlobalMultiGridRefiner::refine'' [] # refine_loop (i + 1) numRefs
      else [])"
  by pat_completeness auto
termination
  by (relation "measure (\<lambda>(i, numRefs). nat (numRefs - i))") auto

declare refine_loop.simps [simp del]

definition refine :: "int \<Rightarrow> call list" where
  "refine numRefs =
     Call ''GlobalMultiGridRefiner'' [ObjArg ''*m_spDomain->grid()'',
                                      ObjArg ''m_spDomain->refinement_projector()'']
     # refine_loop 0 numRefs"

text \<open>
  \<^verbatim>\<open>Laplace::run()\<close>: the calls it makes, in order, and the test case it leaves
  behind. The values that \<^verbatim>\<open>get_values\<close> stores into the solution vector come from
  the framework and are a parameter here.
\<close>

definition Laplace_run :: "double list \<Rightarrow> Testcase \<Rightarrow> call list \<times> Testcase" where
  "Laplace_run vals tc =
     ([Call ''AlgebraType'' [StrArg ''CPU'', IntArg 1],
       Call ''InitUG'' [IntArg 3, ObjArg ''algebra''],
       Call ''Domain'' [],
       Call ''LoadDomain'' [ObjArg ''*m_spDomain'', StrArg (m_gridname tc)]]
      @ refine 4
      @ [Call ''ApproximationSpace'' [ObjArg ''m_spDomain''],
         Call ''ApproximationSpace::add'' [StrArg ''c'', StrArg ''Lagrange'', IntArg 1],
         Call ''ApproximationSpace::init_top_surface'' [],
         Call ''ConvectionDiffusionFV1'' [StrArg ''c'', StrArg ''Inner''],
         Call ''ConvectionDiffusionFV1::set_diffusion'' [NumArg (Decimal 10 (- 1))],
         Call ''ConvectionDiffusionFV1::set_reaction'' [NumArg (Decimal 0 (- 1))],
         Call ''DirichletBoundary'' [],
         Call ''DirichletBoundary::add'' [IntArg (- 1), StrArg ''c'', StrArg ''bndNegative''],
         Call ''DirichletBoundary::add'' [IntArg 1, StrArg ''c'', StrArg ''bndPositive''],
         Call ''DomainDiscretization'' [ObjArg ''m_spApproxSpace''],
         Call ''DomainDiscretization::add'' [ObjArg ''m_spElemDisc''],
         Call ''DomainDiscretization::add'' [ObjArg ''m_spDirichlet''],
         Call ''Jacobi'' [NumArg (Decimal 66 (- 2))],
         Call ''SuperLUSolver'' [],
         Call ''AgglomeratingSolver'' [ObjArg ''superlu''],
         Call ''StdTransfer'' [],
         Call ''StdTransfer::enable_p1_lagrange_optimization'' [BoolArg True],
         Call ''AssembledMultiGridCycle'' [ObjArg ''m_spApproxSpace''],
         Call ''AssembledMultiGridCycle::set_base_solver'' [ObjArg ''baseSolver''],
         Call ''AssembledMultiGridCycle::set_smoother'' [ObjArg ''smoother''],
         Call ''AssembledMultiGridCycle::set_base_level'' [IntArg 0],
         Call ''AssembledMultiGridCycle::set_cycle_type'' [StrArg ''V''],
         Call ''AssembledMultiGridCycle::set_num_presmooth'' [IntArg 3],
         Call ''AssembledMultiGridCycle::set_num_postsmooth'' [IntArg 3],
         Call ''AssembledMultiGridCycle::set_rap'' [BoolArg False],
         Call ''AssembledMultiGridCycle::set_smooth_on_surface_rim'' [BoolArg False],
         Call ''AssembledMultiGridCycle::set_emulate_full_refined_grid'' [BoolArg False],
         Call ''AssembledMultiGridCycle::set_gathered_base_solver_if_ambiguous'' [BoolArg False],
         Call ''AssembledMultiGridCycle::set_transfer'' [ObjArg ''transfer''],
         Call ''StdConvCheck'' [IntArg 100, NumArg (Decimal 1 (- 12)), NumArg (Decimal 1 (- 6)),
                                BoolArg True],
         Call ''BiCGStab'' [],
         Call ''BiCGStab::set_preconditioner'' [ObjArg ''gmg''],
         Call ''BiCGStab::set_convergence_check'' [ObjArg ''ConvCheck''],
         Call ''AssembledLinearOperator'' [ObjArg ''m_spDomainDisc''],
         Call ''GridFunction'' [ObjArg ''m_spApproxSpace''],
         Call ''GridFunction'' [ObjArg ''m_spApproxSpace''],
         Call ''GridFunction::set'' [NumArg (Decimal 0 (- 1))],
         Call ''DomainDiscretization::adjust_solution'' [ObjArg ''*m_spU''],
         Call ''DomainDiscretization::assemble_linear'' [ObjArg ''*m_spOp'', ObjArg ''*m_spB''],
         Call ''BiCGStab::init'' [ObjArg ''m_spOp'', ObjArg ''*m_spU''],
         Call ''BiCGStab::apply'' [ObjArg ''*m_spU'', ObjArg ''*m_spB''],
         Call ''AssembledLinearOperator::get_values'' [ObjArg ''*sol'']],
      tc\<lparr>m_spSolution := Some vals\<rparr>)"

text \<open>The number of refinement steps in a sequence of calls.\<close>

definition refinements :: "call list \<Rightarrow> nat" where
  "refinements cs = length (filter (\<lambda>c. c = Call ''GlobalMultiGridRefiner::refine'' []) cs)"

text \<open>The argument lists of the calls of one name, in order.\<close>

fun arguments :: "string \<Rightarrow> call list \<Rightarrow> arg list list" where
  "arguments name [] = []"
| "arguments name (Call n as # cs) =
     (if n = name then as # arguments name cs else arguments name cs)"

section \<open>The vector tests of \<^verbatim>\<open>unit_tests/vector_tests.cpp\<close>\<close>

text \<open>
  The fixture works on vectors \<^verbatim>\<open>MathVector<dim, ValueType>\<close> with \<^verbatim>\<open>dim = 3\<close>, for
  the element types \<^verbatim>\<open>float\<close> and \<^verbatim>\<open>double\<close>. A vector is the list of its \<open>dim\<close>
  components. The element type is left open: the operations below only use its
  addition, subtraction and multiplication, whatever they round to, and the
  comparison \<^verbatim>\<open>EXPECT_EQ\<close> is equality of the computed values.
\<close>

definition dim :: nat where
  "dim = 3"

text \<open>The assignment \<^verbatim>\<open>c = 0\<close> sets every component to zero.\<close>

definition zero_vector :: "'a::zero list" where
  "zero_vector = replicate dim 0"

text \<open>
  Modelled from the spec: the functions \<^verbatim>\<open>VecCopy\<close>, \<^verbatim>\<open>VecAppend\<close>,
  \<^verbatim>\<open>VecScaleAppend\<close>, \<^verbatim>\<open>VecAdd\<close>, \<^verbatim>\<open>VecSubtract\<close> and \<^verbatim>\<open>VecPow\<close> belong to the
  simulation framework; these sources only call them. Each one is evaluated
  component by component. \<^verbatim>\<open>VecCopy(to, from, fill)\<close> copies the components of
  \<^verbatim>\<open>from\<close> and gives \<^verbatim>\<open>fill\<close> to a component that \<^verbatim>\<open>from\<close> does not have.
\<close>

definition VecCopy :: "'a list \<Rightarrow> 'a \<Rightarrow> 'a list" where
  "VecCopy vFrom fill = map (\<lambda>i. if i < length vFrom then vFrom ! i else fill) [0..<dim]"

text \<open>
  Modelled from the spec: \<^verbatim>\<open>VecAppend(vOut, v1, ...)\<close> accumulates: the result is
  the prior value of \<^verbatim>\<open>vOut\<close> plus the added terms. The overloads with one to four
  added vectors are the ones the test calls.
\<close>

definition VecAppend :: "'a::plus list \<Rightarrow> 'a list \<Rightarrow> 'a list" where
  "VecAppend vOut v1 = map (\<lambda>i. vOut ! i + v1 ! i) [0..<dim]"

definition VecAppend2 :: "'a::plus list \<Rightarrow> 'a list \<Rightarrow> 'a list \<Rightarrow> 'a list" where
  "VecAppend2 vOut v1 v2 = map (\<lambda>i. vOut ! i + (v1 ! i + v2 ! i)) [0..<dim]"

definition VecAppend3 :: "'a::plus list \<Rightarrow> 'a list \<Rightarrow> 'a list \<Rightarrow> 'a list \<Rightarrow> 'a list" where
  "VecAppend3 vOut v1 v2 v3 = map (\<lambda>i. vOut ! i + (v1 ! i + v2 ! i + v3 ! i)) [0..<dim]"

definition VecAppend4 ::
  "'a::plus list \<Rightarrow> 'a list \<Rightarrow> 'a list \<Rightarrow> 'a list \<Rightarrow> 'a list \<Rightarrow> 'a list" where
  "VecAppend4 vOut v1 v2 v3 v4 =
     map (\<lambda>i. vOut ! i + (v1 ! i + v2 ! i + v3 ! i + v4 ! i)) [0..<dim]"

text \<open>
  Modelled from the spec: \<^verbatim>\<open>VecScaleAppend(vOut, s1, v1, ...)\<close> accumulates the
  weighted terms \<^verbatim>\<open>s1 * v1 + ...\<close> onto \<^verbatim>\<open>vOut\<close>. The test calls the overloads with
  one to four weighted terms; the spec speaks of chains of up to five.
\<close>

definition VecScaleAppend :: "'a::{plus,times} list \<Rightarrow> 'a \<Rightarrow> 'a list \<Rightarrow> 'a list" where
  "VecScaleAppend vOut s1 v1 = map (\<lambda>i. vOut ! i + s1 * v1 ! i) [0..<dim]"

definition VecScaleAppend2 ::
  "'a::{plus,times} list \<Rightarrow> 'a \<Rightarrow> 'a list \<Rightarrow> 'a \<Rightarrow> 'a list \<Rightarrow> 'a list" where
  "VecScaleAppend2 vOut s1 v1 s2 v2 =
     map (\<lambda>i. vOut ! i + (s1 * v1 ! i + s2 * v2 ! i)) [0..<dim]"

definition VecScaleAppend3 ::
  "'a::{plus,times} list \<Rightarrow> 'a \<Rightarrow> 'a list \<Rightarrow> 'a \<Rightarrow> 'a list \<Rightarrow> 'a \<Rightarrow> 'a list \<Rightarrow> 'a list" where
  "VecScaleAppend3 vOut s1 v1 s2 v2 s3 v3 =
     map (\<lambda>i. vOut ! i + (s1 * v1 ! i + s2 * v2 ! i + s3 * v3 ! i)) [0..<dim]"

definition VecScaleAppend4 ::
  "'a::{plus,times} list \<Rightarrow> 'a \<Rightarrow> 'a list \<Rightarrow> 'a \<Rightarrow> 'a list \<Rightarrow> 'a \<Rightarrow> 'a list
     \<Rightarrow> 'a \<Rightarrow> 'a list \<Rightarrow> 'a list" where
  "VecScaleAppend4 vOut s1 v1 s2 v2 s3 v3 s4 v4 =
     map (\<lambda>i. vOut ! i + (s1 * v1 ! i + s2 * v2 ! i + s3 * v3 ! i + s4 * v4 ! i)) [0..<dim]"


text \<open>
  Modelled from the spec: \<^verbatim>\<open>VecAdd\<close> and \<^verbatim>\<open>VecSubtract\<close> overwrite the output
  vector with the sum of two to four operands, and with the difference of two.
\<close>

definition VecAdd :: "'a::plus list \<Rightarrow> 'a list \<Rightarrow> 'a list" where
  "VecAdd v1 v2 = map (\<lambda>i. v1 ! i + v2 ! i) [0..<dim]"

definition VecAdd3 :: "'a::plus list \<Rightarrow> 'a list \<Rightarrow> 'a list \<Rightarrow> 'a list" where
  "VecAdd3 v1 v2 v3 = map (\<lambda>i. v1 ! i + v2 ! i + v3 ! i) [0..<dim]"

definition VecAdd4 :: "'a::plus list \<Rightarrow> 'a list \<Rightarrow> 'a list \<Rightarrow> 'a list \<Rightarrow> 'a list" where
  "VecAdd4 v1 v2 v3 v4 = map (\<lambda>i. v1 ! i + v2 ! i + v3 ! i + v4 ! i) [0..<dim]"

definition VecSubtract :: "'a::minus list \<Rightarrow> 'a list \<Rightarrow> 'a list" where
  "VecSubtract v1 v2 = map (\<lambda>i. v1 ! i - v2 ! i) [0..<dim]"

text \<open>
  Modelled from the spec: \<^verbatim>\<open>VecPow(vOut, v1, s)\<close> raises each component to the power
  \<^verbatim>\<open>s\<close>. The power function \<^verbatim>\<open>std::pow\<close> of the element type is the parameter
  \<open>pow\<close>.
\<close>

definition VecPow :: "('a \<Rightarrow> 'a \<Rightarrow> 'a) \<Rightarrow> 'a list \<Rightarrow> 'a \<Rightarrow> 'a list" where
  "VecPow pow v1 s = map (\<lambda>i. pow (v1 ! i) s) [0..<dim]"

text \<open>
  The bodies of the tests of these operations. The fixture's \<^verbatim>\<open>reset()\<close> fills \<^verbatim>\<open>a\<close> and \<^verbatim>\<open>b\<close> with
  random components and sets \<^verbatim>\<open>c\<close>, \<^verbatim>\<open>d\<close> and \<^verbatim>\<open>e\<close> to zero, so \<^verbatim>\<open>a\<close> and \<^verbatim>\<open>b\<close> are
  the inputs of a test. A test yields the outcomes of its \<^verbatim>\<open>EXPECT_EQ\<close> checks in
  the order in which they run. The integer literals of the source are converted
  to the element type.
\<close>

definition test_VecAppend :: "'a::{plus,zero} list \<Rightarrow> 'a list \<Rightarrow> bool list" where
  "test_VecAppend a0 b =
     (let acopy = VecCopy a0 0;
          a = VecAppend a0 b;
          first = map (\<lambda>i. a ! i = acopy ! i + b ! i) [0..<dim];
          c = VecAppend2 zero_vector a b;
          d = VecAppend3 zero_vector a b c;
          e = VecAppend4 zero_vector a b c d
      in first @ concat (map (\<lambda>i. [c ! i = a ! i + b ! i,
                                      d ! i = a ! i + b ! i + c ! i,
                                      e ! i = a ! i + b ! i + c ! i + d ! i]) [0..<dim]))"

definition test_VecScaleAppend :: "'a::{plus,times,zero,numeral} list \<Rightarrow> 'a list \<Rightarrow> bool list" where
  "test_VecScaleAppend a b =
     (let c0 = VecScaleAppend zero_vector 2 b;
          first = map (\<lambda>i. c0 ! i = 2 * b ! i) [0..<dim];
          c = VecScaleAppend2 zero_vector 2 a 3 b;
          d = VecScaleAppend3 zero_vector 2 a 3 b 4 c;
          e = VecScaleAppend4 zero_vector 2 a 3 b 4 c 5 d
      in first @ concat (map (\<lambda>i. [c ! i = 2 * a ! i + 3 * b ! i,
                                      d ! i = 2 * a ! i + 3 * b ! i + 4 * c ! i,
                                      e ! i = 2 * a ! i + 3 * b ! i + 4 * c ! i + 5 * d ! i])
                              [0..<dim]))"

definition test_VecAdd :: "'a::plus list \<Rightarrow> 'a list \<Rightarrow> bool list" where
  "test_VecAdd a b =
     (let c = VecAdd a b;
          d = VecAdd3 a b c;
          e = VecAdd4 a b c d
      in concat (map (\<lambda>i. [c ! i = a ! i + b ! i,
                             d ! i = a ! i + b ! i + c ! i,
                             e ! i = a ! i + b ! i + c ! i + d ! i]) [0..<dim]))"

definition test_VecSub :: "'a::minus list \<Rightarrow> 'a list \<Rightarrow> bool list" where
  "test_VecSub a b =
     (let c = VecSubtract a b
      in map (\<lambda>i. c ! i = a ! i - b ! i) [0..<dim])"

section \<open>Properties of the comparison loop\<close>

text \<open>
  The model of the numbers agrees with the encodings that the hardware gives:
  \<^verbatim>\<open>0.000001\<close> is \<^verbatim>\<open>0x3EB0C6F7A0B5ED8D\<close>, \<^verbatim>\<open>1.0\<close> is \<^verbatim>\<open>0x3FF0000000000000\<close> and
  \<^verbatim>\<open>0.66\<close> is \<^verbatim>\<open>0x3FE51EB851EB851F\<close>; \<open>2^53 + 1\<close> lies halfway between two numbers
  and goes to the even one; \<^verbatim>\<open>1.0 - 1.0000001\<close> is exact, while \<^verbatim>\<open>1e-6 - 1e-30\<close> is
  rounded back to \<^verbatim>\<open>1e-6\<close>.
\<close>

lemma tolerance_value: "tolerance = Finite False 4722366482869645 (- 72)"
  by (simp add: tolerance_def fround_def scaled_def rne_def bitlen.simps Let_def)

lemma double_of_decimal_values:
  "double_of_decimal (Decimal 1 0) = Finite False 4503599627370496 (- 52)"
  "double_of_decimal (Decimal 66 (- 2)) = Finite False 5944751508129055 (- 53)"
  "double_of_decimal (Decimal 9007199254740993 0) = Finite False 4503599627370496 1"
  "double_of_decimal (Decimal 9007199254740995 0) = Finite False 4503599627370498 1"
  by (simp_all add: fround_def scaled_def rne_def bitlen.simps Let_def)

lemma fsub_values:
  "fsub (double_of_decimal (Decimal 1 0)) (double_of_decimal (Decimal 10000001 (- 7)))
     = Finite True 7555786377003008 (- 76)"
  "fsub (double_of_decimal (Decimal 1 (- 6))) (double_of_decimal (Decimal 1 (- 30)))
     = double_of_decimal (Decimal 1 (- 6))"
  by (simp_all add: fround_def scaled_def rne_def bitlen.simps Let_def signed_def)

text \<open>A loop that meets no mismatch and stays inside the reference runs to the end.\<close>

lemma compare_loop_all_equal:
  assumes "length sol \<le> length rf"
    and "\<forall>j. i \<le> j \<and> j < length sol \<longrightarrow> isEqual (sol ! j) (rf ! j)"
    and "i \<le> length sol"
  shows "compare_loop i sol rf rd =
           \<lparr>outcome = Returned True, printed = [], reads = rd @ [i..<length sol]\<rparr>"
  using assms
proof (induction i sol rf rd rule: compare_loop.induct)
  case (1 i sol rf rd)
  show ?case
  proof (cases "i < length sol")
    case False
    with "1.prems" show ?thesis
      by (subst compare_loop.simps) simp
  next
    case True
    with "1.prems" have inside: "i < length rf" and eq: "isEqual (sol ! i) (rf ! i)"
      by auto
    have "compare_loop (Suc i) sol rf (rd @ [i]) =
            \<lparr>outcome = Returned True, printed = [], reads = (rd @ [i]) @ [Suc i..<length sol]\<rparr>"
      using "1.IH" [OF True inside] eq "1.prems" True by simp
    with True inside eq show ?thesis
      by (subst compare_loop.simps) (simp add: upt_conv_Cons)
  qed
qed

text \<open>The loop stops at the first pair that fails the test, and prints its index.\<close>

lemma compare_loop_first_mismatch:
  assumes "k < length sol" and "k < length rf"
    and "\<not> isEqual (sol ! k) (rf ! k)"
    and "\<forall>j. i \<le> j \<and> j < k \<longrightarrow> isEqual (sol ! j) (rf ! j)"
    and "i \<le> k"
  shows "compare_loop i sol rf rd =
           \<lparr>outcome = Returned False,
            printed = [''Not equal at '' @ string_of_nat k],
            reads = rd @ [i..<Suc k]\<rparr>"
  using assms
proof (induction i sol rf rd rule: compare_loop.induct)
  case (1 i sol rf rd)
  show ?case
  proof (cases "i = k")
    case True
    with "1.prems" show ?thesis
      by (subst compare_loop.simps) simp
  next
    case False
    with "1.prems" have lt: "i < k" and in_sol: "i < length sol" and in_rf: "i < length rf"
      by auto
    with "1.prems" have eq: "isEqual (sol ! i) (rf ! i)"
      by auto
    have "compare_loop (Suc i) sol rf (rd @ [i]) =
            \<lparr>outcome = Returned False,
             printed = [''Not equal at '' @ string_of_nat k],
             reads = (rd @ [i]) @ [Suc i..<Suc k]\<rparr>"
      using "1.IH" [OF in_sol in_rf] eq "1.prems" lt by simp
    with in_sol in_rf eq lt show ?thesis
      by (subst compare_loop.simps) (simp add: upt_conv_Cons)
  qed
qed

text \<open>
  With a reference shorter than the solution and no mismatch inside it, the loop
  reaches the first index past the end of the reference.
\<close>

lemma compare_loop_out_of_bounds:
  assumes "length rf < length sol"
    and "\<forall>j. i \<le> j \<and> j < length rf \<longrightarrow> isEqual (sol ! j) (rf ! j)"
    and "i \<le> length rf"
  shows "compare_loop i sol rf rd =
           \<lparr>outcome = OutOfBounds (length rf), printed = [], reads = rd @ [i..<length rf]\<rparr>"
  using assms
proof (induction i sol rf rd rule: compare_loop.induct)
  case (1 i sol rf rd)
  show ?case
  proof (cases "i < length rf")
    case False
    with "1.prems" show ?thesis
      by (subst compare_loop.simps) simp
  next
    case True
    with "1.prems" have in_sol: "i < length sol" and eq: "isEqual (sol ! i) (rf ! i)"
      by auto
    have "compare_loop (Suc i) sol rf (rd @ [i]) =
            \<lparr>outcome = OutOfBounds (length rf), printed = [],
             reads = (rd @ [i]) @ [Suc i..<length rf]\<rparr>"
      using "1.IH" [OF in_sol True] eq "1.prems" True by simp
    with True in_sol eq show ?thesis
      by (subst compare_loop.simps) (simp add: upt_conv_Cons)
  qed
qed

text \<open>The loop never looks at the reference beyond the length of the solution.\<close>

lemma compare_loop_take:
  "compare_loop i sol rf rd = compare_loop i sol (take (length sol) rf) rd"
proof (induction i sol rf rd rule: compare_loop.induct)
  case (1 i sol rf rd)
  show ?case
  proof (cases "i < length sol \<and> i < length rf \<and> isEqual (sol ! i) (rf ! i)")
    case True
    then have "compare_loop (Suc i) sol rf (rd @ [i]) =
                 compare_loop (Suc i) sol (take (length sol) rf) (rd @ [i])"
      using "1.IH" by simp
    with True show ?thesis
      by (simp add: compare_loop.simps [of i sol rf] compare_loop.simps [of i sol "take (length sol) rf"])
  next
    case False
    then show ?thesis
      by (auto simp add: compare_loop.simps [of i sol rf] compare_loop.simps [of i sol "take (length sol) rf"])
  qed
qed

text \<open>The least index at which the test fails, when there is one.\<close>

lemma first_mismatch_exists:
  assumes "\<exists>j < (n::nat). \<not> P j"
  shows "\<exists>k < n. \<not> P k \<and> (\<forall>j < k. P j)"
proof -
  from assms have "\<exists>j. j < n \<and> \<not> P j"
    by blast
  then have "\<exists>k. (k < n \<and> \<not> P k) \<and> (\<forall>m < k. \<not> (m < n \<and> \<not> P m))"
    using exists_least_iff [of "\<lambda>j. j < n \<and> \<not> P j"] by blast
  then obtain k where k: "k < n" "\<not> P k" and least: "\<forall>m < k. \<not> (m < n \<and> \<not> P m)"
    by blast
  from least k(1) have "\<forall>j < k. P j"
    by auto
  with k show ?thesis
    by blast
qed

text \<open>
  A pair fails the test when its computed difference is at least the tolerance,
  and also when that difference is NaN.
\<close>

lemma not_isEqual_iff:
  "(\<not> isEqual a b) = (fge (fabs (fsub a b)) tolerance \<or> fsub a b = NaN)"
  by (cases "fsub a b") (simp_all add: isEqual_def tolerance_value)

lemma compare_unfold:
  assumes "m_spSolution tc = Some sol" and "fs (m_reference tc) = Some rf"
  shows "compare fs tc = compare_loop 0 sol rf []"
  using assms by (simp add: compare_def read_reference_def)

lemmas double_eval =
  fround_def scaled_def rne_def bitlen.simps Let_def signed_def isEqual_def tolerance_value

text \<open>
  The three ways in which the loop can end: at the first failing pair, at the end
  of the solution, or at the first index past the end of a shorter reference.
\<close>

lemma compare_loop_cases:
  "(\<exists>k. k < length sol \<and> k < length rf \<and> \<not> isEqual (sol ! k) (rf ! k)
        \<and> (\<forall>j < k. isEqual (sol ! j) (rf ! j))
        \<and> compare_loop 0 sol rf [] =
            \<lparr>outcome = Returned False,
             printed = [''Not equal at '' @ string_of_nat k],
             reads = [0..<Suc k]\<rparr>)
   \<or> (length sol \<le> length rf \<and> (\<forall>j < length sol. isEqual (sol ! j) (rf ! j))
        \<and> compare_loop 0 sol rf [] =
            \<lparr>outcome = Returned True, printed = [], reads = [0..<length sol]\<rparr>)
   \<or> (length rf < length sol \<and> (\<forall>j < length rf. isEqual (sol ! j) (rf ! j))
        \<and> compare_loop 0 sol rf [] =
            \<lparr>outcome = OutOfBounds (length rf), printed = [], reads = [0..<length rf]\<rparr>)"
proof (cases "\<exists>j < min (length sol) (length rf). \<not> isEqual (sol ! j) (rf ! j)")
  case True
  then obtain k where k: "k < min (length sol) (length rf)" "\<not> isEqual (sol ! k) (rf ! k)"
      and before: "\<forall>j < k. isEqual (sol ! j) (rf ! j)"
    using first_mismatch_exists [of "min (length sol) (length rf)" "\<lambda>j. isEqual (sol ! j) (rf ! j)"]
    by blast
  have "compare_loop 0 sol rf [] =
          \<lparr>outcome = Returned False,
           printed = [''Not equal at '' @ string_of_nat k],
           reads = [] @ [0..<Suc k]\<rparr>"
    using k before by (intro compare_loop_first_mismatch) simp_all
  with k before show ?thesis
    by auto
next
  case False
  then have all: "\<forall>j < min (length sol) (length rf). isEqual (sol ! j) (rf ! j)"
    by blast
  show ?thesis
  proof (cases "length sol \<le> length rf")
    case True
    with all have eq: "\<forall>j < length sol. isEqual (sol ! j) (rf ! j)"
      by (simp add: min_def)
    then have "compare_loop 0 sol rf [] =
          \<lparr>outcome = Returned True, printed = [], reads = [] @ [0..<length sol]\<rparr>"
      using True by (intro compare_loop_all_equal) simp_all
    with True eq show ?thesis
      by simp
  next
    case False
    with all have eq: "\<forall>j < length rf. isEqual (sol ! j) (rf ! j)"
      by (simp add: min_def)
    then have "compare_loop 0 sol rf [] =
          \<lparr>outcome = OutOfBounds (length rf), printed = [], reads = [] @ [0..<length rf]\<rparr>"
      using False by (intro compare_loop_out_of_bounds) simp_all
    with False eq show ?thesis
      by simp
  qed
qed

lemma compare_loop_reads:
  "\<exists>c. c \<le> length sol \<and> c \<le> length rf \<and> reads (compare_loop 0 sol rf []) = [0..<c]"
  using compare_loop_cases [of sol rf]
proof (elim disjE exE conjE)
  fix k
  assume "k < length sol" "k < length rf"
    and "compare_loop 0 sol rf [] =
          \<lparr>outcome = Returned False,
           printed = [''Not equal at '' @ string_of_nat k],
           reads = [0..<Suc k]\<rparr>"
  then show ?thesis
    by (intro exI [of _ "Suc k"]) simp
next
  assume "length sol \<le> length rf"
    and "compare_loop 0 sol rf [] =
          \<lparr>outcome = Returned True, printed = [], reads = [0..<length sol]\<rparr>"
  then show ?thesis
    by (intro exI [of _ "length sol"]) simp
next
  assume "length rf < length sol"
    and "compare_loop 0 sol rf [] =
          \<lparr>outcome = OutOfBounds (length rf), printed = [], reads = [0..<length rf]\<rparr>"
  then show ?thesis
    by (intro exI [of _ "length rf"]) simp
qed

text \<open>
  The tolerance is absolute: \<open>10^15\<close> and \<open>10^15 + 0.125\<close> differ by about one part
  in \<open>10^16\<close> and are not equal for \<^verbatim>\<open>isEqual\<close>.
\<close>

lemma isEqual_is_absolute:
  "\<not> isEqual (double_of_decimal (Decimal 1 15))
              (double_of_decimal (Decimal 1000000000000000125 (- 3)))"
  by (simp add: double_eval)

text \<open>
  A reference file that cannot be opened gives an empty reference: the call
  returns true for an empty solution, and reads past the end of the reference at
  index 0 for any other solution.
\<close>

lemma compare_missing_reference:
  assumes "m_spSolution tc = Some sol" and "fs (m_reference tc) = None"
  shows "compare fs tc =
           (if sol = [] then \<lparr>outcome = Returned True, printed = [], reads = []\<rparr>
            else \<lparr>outcome = OutOfBounds 0, printed = [], reads = []\<rparr>)"
proof -
  have "compare fs tc = compare_loop 0 sol [] []"
    using assms by (simp add: compare_def read_reference_def)
  also have "\<dots> =
      (if sol = [] then \<lparr>outcome = Returned True, printed = [], reads = []\<rparr>
       else \<lparr>outcome = OutOfBounds 0, printed = [], reads = []\<rparr>)"
    by (subst compare_loop.simps) simp
  finally show ?thesis .
qed

section \<open>The numbers as real numbers\<close>

text \<open>
  What the operations of \<^verbatim>\<open>isEqual\<close> mean for the real numbers that the data stand
  for: \<open>rne\<close> is within one half of the exact quotient, so a rounded result
  \<open>Finite s m e\<close> is within half a unit of its last place, \<open>2^e / 2\<close>, of the exact
  result; \<open>flt\<close> on finite data is the order of the real numbers; and the
  difference that \<open>fsub\<close> returns has a significand that is not negative.
\<close>

lemma rne_nonneg: "0 \<le> n \<Longrightarrow> 0 < d \<Longrightarrow> 0 \<le> rne (n, d)"
  by (simp add: rne_def Let_def pos_imp_zdiv_nonneg_iff)

lemma scaled_sound:
  assumes "0 \<le> n" and "0 < d"
  shows "0 \<le> fst (scaled n d e)" and "0 < snd (scaled n d e)"
    and "real_of_int (fst (scaled n d e)) / real_of_int (snd (scaled n d e))
           = (real_of_int n / real_of_int d) / 2 powi e"
  using assms by (simp_all add: scaled_def power_int_def field_simps)

lemma rne_scaled_nonneg:
  assumes "0 \<le> n" and "0 < d"
  shows "0 \<le> rne (scaled n d e)"
  using rne_nonneg [OF scaled_sound(1,2) [OF assms], of e e] by simp

lemma rne_error:
  assumes "0 \<le> n" and "0 < d"
  shows "\<bar>real_of_int (rne (n, d)) - real_of_int n / real_of_int d\<bar> \<le> 1 / 2"
proof -
  define q where "q = n div d"
  define r where "r = n mod d"
  have n: "n = q * d + r"
    by (simp add: q_def r_def)
  have r: "0 \<le> r" "r < d"
    using assms by (simp_all add: r_def)
  have frac: "real_of_int n / real_of_int d = real_of_int q + real_of_int r / real_of_int d"
    using assms(2) by (simp add: n field_simps)
  have rd: "0 \<le> real_of_int r / real_of_int d" "real_of_int r / real_of_int d < 1"
    using r assms(2) by simp_all
  consider "2 * r < d" | "d < 2 * r" | "2 * r = d"
    by linarith
  then show ?thesis
  proof cases
    case 1
    then have "real_of_int r / real_of_int d < 1 / 2"
      using assms(2) by (simp add: field_simps)
    moreover from 1 have "rne (n, d) = q"
      by (simp add: rne_def Let_def q_def r_def)
    ultimately show ?thesis
      using rd frac by simp
  next
    case 2
    then have "1 / 2 < real_of_int r / real_of_int d"
      using assms(2) by (simp add: field_simps)
    moreover from 2 have "rne (n, d) = q + 1"
      by (simp add: rne_def Let_def q_def r_def)
    ultimately show ?thesis
      using rd frac by simp
  next
    case 3
    then have "real_of_int r / real_of_int d = 1 / 2"
      using assms(2) by (simp add: field_simps)
    moreover from 3 have "rne (n, d) = q \<or> rne (n, d) = q + 1"
      by (simp add: rne_def Let_def q_def r_def)
    ultimately show ?thesis
      using frac by auto
  qed
qed

lemma fround_nonneg:
  assumes "0 \<le> n" and "0 < d" and "fround s n d = Finite t q e"
  shows "0 \<le> q"
  using assms(3) rne_scaled_nonneg [OF assms(1,2)]
  by (auto simp add: fround_def Let_def split: if_splits)

lemma fround_error:
  assumes "0 \<le> n" and "0 < d" and "fround s n d = Finite t q e"
  shows "t = s \<and> \<bar>real_of_int q * 2 powi e - real_of_int n / real_of_int d\<bar> \<le> 2 powi e / 2"
proof (cases "n = 0")
  case True
  with assms(3) show ?thesis
    by (simp add: fround_def)
next
  case False
  define e1 where "e1 = bitlen n - bitlen d - 53"
  define e2 where
    "e2 = (if 2 ^ 53 \<le> fst (scaled n d e1) div snd (scaled n d e1) then e1 + 1 else e1)"
  define e' where "e' = max e2 (- 1074)"
  define q' where "q' = rne (scaled n d e')"
  have res: "fround s n d =
      (if q' = 2 ^ 53 then (if 971 < e' + 1 then Infinity s else Finite s (2 ^ 52) (e' + 1))
       else (if 971 < e' then Infinity s else Finite s q' e'))"
    unfolding q'_def e'_def e2_def e1_def fround_def Let_def
    by (simp only: False if_False)
  have "\<bar>real_of_int q' - (real_of_int n / real_of_int d) / 2 powi e'\<bar> \<le> 1 / 2"
    using rne_error [OF scaled_sound(1,2) [OF assms(1,2)], of e' e']
    by (simp add: q'_def scaled_sound(3) [OF assms(1,2)])
  then have "\<bar>real_of_int q' - (real_of_int n / real_of_int d) / 2 powi e'\<bar> * 2 powi e'
      \<le> 1 / 2 * 2 powi e'"
    by (intro mult_right_mono) simp_all
  moreover have "real_of_int q' * 2 powi e' - real_of_int n / real_of_int d
      = (real_of_int q' - (real_of_int n / real_of_int d) / 2 powi e') * 2 powi e'"
    by (simp add: left_diff_distrib)
  then have "\<bar>real_of_int q' * 2 powi e' - real_of_int n / real_of_int d\<bar>
      = \<bar>real_of_int q' - (real_of_int n / real_of_int d) / 2 powi e'\<bar> * 2 powi e'"
    by (simp only: abs_mult) simp
  ultimately have err:
    "\<bar>real_of_int q' * 2 powi e' - real_of_int n / real_of_int d\<bar> \<le> 2 powi e' / 2"
    by simp
  show ?thesis
  proof (cases "q' = 2 ^ 53")
    case True
    with res assms(3) have t: "t = s" and q: "q = 2 ^ 52" and e: "e = e' + 1"
      by (auto split: if_splits)
    have "real_of_int q * 2 powi e = real_of_int q' * 2 powi e'"
      by (simp add: q e True power_int_add)
    moreover have "(2::real) powi e' / 2 \<le> 2 powi e / 2"
      by (simp add: e power_int_add)
    ultimately show ?thesis
      using err t by simp
  next
    case False
    with res assms(3) have "t = s" and "q = q'" and "e = e'"
      by (auto split: if_splits)
    with err show ?thesis
      by simp
  qed
qed

lemma signed_real:
  assumes "e \<le> e'"
  shows "real_of_int (signed s m (nat (e' - e))) * 2 powi e = real_of_finite s m e'"
proof -
  have "(2::real) ^ nat (e' - e) = 2 powi (e' - e)"
    using assms by (simp add: power_int_def)
  moreover have "(2::real) powi (e' - e) * 2 powi e = 2 powi (e' - e + e)"
    by (rule power_int_add [symmetric]) simp
  ultimately have "(2::real) ^ nat (e' - e) * 2 powi e = 2 powi e'"
    by simp
  then show ?thesis
    by (simp add: signed_def real_of_finite_def mult.assoc)
qed

lemma flt_real:
  "flt (Finite s1 m1 e1) (Finite s2 m2 e2) = (real_of_finite s1 m1 e1 < real_of_finite s2 m2 e2)"
proof -
  define e where "e = min e1 e2"
  define a where "a = signed s1 m1 (nat (e1 - e))"
  define b where "b = signed s2 m2 (nat (e2 - e))"
  have a: "real_of_int a * 2 powi e = real_of_finite s1 m1 e1"
    unfolding a_def by (rule signed_real) (simp add: e_def)
  have b: "real_of_int b * 2 powi e = real_of_finite s2 m2 e2"
    unfolding b_def by (rule signed_real) (simp add: e_def)
  have "flt (Finite s1 m1 e1) (Finite s2 m2 e2) = (a < b)"
    by (simp add: Let_def a_def b_def e_def)
  also have "\<dots> = (real_of_int a * 2 powi e < real_of_int b * 2 powi e)"
    by simp
  finally show ?thesis
    by (simp only: a b)
qed

lemma fsub_exact:
  assumes "e = min e1 e2"
    and "d = signed s1 m1 (nat (e1 - e)) - signed s2 m2 (nat (e2 - e))"
  shows "real_of_int d * 2 powi e = real_of_finite s1 m1 e1 - real_of_finite s2 m2 e2"
proof -
  have "real_of_int (signed s1 m1 (nat (e1 - e))) * 2 powi e = real_of_finite s1 m1 e1"
    by (rule signed_real) (simp add: assms(1))
  moreover have "real_of_int (signed s2 m2 (nat (e2 - e))) * 2 powi e = real_of_finite s2 m2 e2"
    by (rule signed_real) (simp add: assms(1))
  ultimately show ?thesis
    by (simp add: assms(2) left_diff_distrib)
qed

lemma fround_scaled:
  "(if e < 0 then fround s n (2 ^ nat (- e)) else fround s (n * 2 ^ nat e) 1)
     = fround s (fst (scaled n 1 (- e))) (snd (scaled n 1 (- e)))"
  by (cases "e = 0") (auto simp add: scaled_def)

lemma fsub_unfold:
  "fsub (Finite s1 m1 e1) (Finite s2 m2 e2) =
     (let e = min e1 e2;
          d = signed s1 m1 (nat (e1 - e)) - signed s2 m2 (nat (e2 - e))
      in if d = 0 then Finite (s1 \<and> \<not> s2) 0 (- 1074)
         else fround (d < 0) (fst (scaled \<bar>d\<bar> 1 (- e))) (snd (scaled \<bar>d\<bar> 1 (- e))))"
  by (simp add: Let_def flip: fround_scaled)

lemma fsub_nonneg:
  assumes "fsub a b = Finite s m e"
  shows "0 \<le> m"
proof (cases a)
  case (Finite s1 m1 e1)
  note a = this
  show ?thesis
  proof (cases b)
    case (Finite s2 m2 e2)
    define e0 where "e0 = min e1 e2"
    define d where "d = signed s1 m1 (nat (e1 - e0)) - signed s2 m2 (nat (e2 - e0))"
    have res: "fsub a b =
        (if d = 0 then Finite (s1 \<and> \<not> s2) 0 (- 1074)
         else fround (d < 0) (fst (scaled \<bar>d\<bar> 1 (- e0))) (snd (scaled \<bar>d\<bar> 1 (- e0))))"
      unfolding a Finite fsub_unfold d_def e0_def Let_def ..
    show ?thesis
    proof (cases "d = 0")
      case True
      with res assms show ?thesis by simp
    next
      case False
      with res assms
      have "fround (d < 0) (fst (scaled \<bar>d\<bar> 1 (- e0))) (snd (scaled \<bar>d\<bar> 1 (- e0)))
          = Finite s m e"
        by simp
      then show ?thesis
        by (rule fround_nonneg [rotated 2]) (simp_all add: scaled_sound)
    qed
  next
    case (Infinity t)
    with a assms show ?thesis by simp
  next
    case NaN
    with a assms show ?thesis by simp
  qed
next
  case (Infinity t)
  with assms show ?thesis by (cases b) (simp_all split: if_splits)
next
  case NaN
  with assms show ?thesis by simp
qed

text \<open>
  The difference that \<open>fsub\<close> computes for two finite numbers, when it is finite,
  is within half a unit of its last place of their exact difference.
\<close>

lemma fsub_error:
  assumes "fsub (Finite s1 m1 e1) (Finite s2 m2 e2) = Finite s m e"
  shows "\<bar>real_of_finite s m e - (real_of_finite s1 m1 e1 - real_of_finite s2 m2 e2)\<bar>
           \<le> 2 powi e / 2"
proof -
  define e0 where "e0 = min e1 e2"
  define d where "d = signed s1 m1 (nat (e1 - e0)) - signed s2 m2 (nat (e2 - e0))"
  have exact: "real_of_int d * 2 powi e0 = real_of_finite s1 m1 e1 - real_of_finite s2 m2 e2"
    using e0_def d_def by (rule fsub_exact)
  have res: "fsub (Finite s1 m1 e1) (Finite s2 m2 e2) =
      (if d = 0 then Finite (s1 \<and> \<not> s2) 0 (- 1074)
       else fround (d < 0) (fst (scaled \<bar>d\<bar> 1 (- e0))) (snd (scaled \<bar>d\<bar> 1 (- e0))))"
    unfolding fsub_unfold d_def e0_def Let_def ..
  show ?thesis
  proof (cases "d = 0")
    case True
    with res assms exact show ?thesis
      by (auto simp add: real_of_finite_def)
  next
    case False
    with res assms
    have round: "fround (d < 0) (fst (scaled \<bar>d\<bar> 1 (- e0))) (snd (scaled \<bar>d\<bar> 1 (- e0)))
        = Finite s m e"
      by simp
    have frac: "real_of_int (fst (scaled \<bar>d\<bar> 1 (- e0))) / real_of_int (snd (scaled \<bar>d\<bar> 1 (- e0)))
        = \<bar>real_of_int d\<bar> * 2 powi e0"
      by (simp add: scaled_sound(3) power_int_minus field_simps)
    from fround_error [OF _ _ round]
    have s: "s = (d < 0)"
      and err: "\<bar>real_of_int m * 2 powi e - \<bar>real_of_int d\<bar> * 2 powi e0\<bar> \<le> 2 powi e / 2"
      by (simp_all add: scaled_sound frac)
    show ?thesis
    proof (cases "d < 0")
      case True
      then have "real_of_finite s m e - real_of_int d * 2 powi e0
          = - (real_of_int m * 2 powi e - \<bar>real_of_int d\<bar> * 2 powi e0)"
        by (simp add: s real_of_finite_def)
      with err show ?thesis
        unfolding exact [symmetric] by (simp only: abs_minus_cancel)
    next
      case False
      then have "real_of_finite s m e - real_of_int d * 2 powi e0
          = real_of_int m * 2 powi e - \<bar>real_of_int d\<bar> * 2 powi e0"
        by (simp add: s real_of_finite_def)
      with err show ?thesis
        unfolding exact [symmetric] by simp
    qed
  qed
qed

text \<open>
  The value of the tolerance is a little below \<open>10^-6\<close>, and \<^verbatim>\<open>isEqual\<close> holds exactly
  when the computed difference is finite and its absolute value is below the
  value of the tolerance.
\<close>

lemma tolerance_real:
  "real_of_finite False 4722366482869645 (- 72) = 4722366482869645 / 2 ^ 72"
  "real_of_finite False 4722366482869645 (- 72) < 1 / 10 ^ 6"
  by (simp_all add: real_of_finite_def power_int_minus divide_simps)

lemma isEqual_real:
  "isEqual a b =
     (\<exists>s m e. fsub a b = Finite s m e \<and> \<bar>real_of_finite s m e\<bar> < 4722366482869645 / 2 ^ 72)"
proof (cases "fsub a b")
  case (Finite s m e)
  then have "0 \<le> m"
    by (rule fsub_nonneg)
  then have "\<bar>real_of_finite s m e\<bar> = real_of_finite False m e"
    by (simp add: real_of_finite_def abs_mult)
  moreover have "isEqual a b
      = (real_of_finite False m e < real_of_finite False 4722366482869645 (- 72))"
    unfolding isEqual_def Finite tolerance_value fabs.simps by (rule flt_real)
  ultimately show ?thesis
    using Finite by (simp add: tolerance_real(1))
next
  case (Infinity t)
  then show ?thesis
    by (simp add: isEqual_def tolerance_value)
next
  case NaN
  then show ?thesis
    by (simp add: isEqual_def)
qed

section \<open>The claims about the comparison\<close>

text \<open>
  C1, as amended. For every pair of equal-length sequences of doubles in which
  every corresponding pair passes the double-precision test
  \<^verbatim>\<open>abs(a - b) < 0.000001\<close>, \<^verbatim>\<open>compare()\<close> returns true, printing nothing. A pair
  passes the test, and \<^verbatim>\<open>isEqual(a, b)\<close> is true, exactly when the difference that
  the subtraction computes is finite and its absolute value is below the double
  nearest to 0.000001, which is \<open>4722366482869645 / 2^72\<close>, a little less than
  \<open>10^-6\<close>. The computed difference of two finite numbers is their exact
  difference rounded: it lies within half a unit of its last place of it. No
  scaling by the magnitude of the operands is applied.
\<close>

theorem compare_within_tolerance:
  assumes "m_spSolution tc = Some sol" and "fs (m_reference tc) = Some rf"
    and "length sol = length rf"
    and "\<forall>i < length sol. \<exists>s m e. fsub (sol ! i) (rf ! i) = Finite s m e
           \<and> \<bar>real_of_finite s m e\<bar> < 4722366482869645 / 2 ^ 72"
  shows "compare fs tc = \<lparr>outcome = Returned True, printed = [], reads = [0..<length sol]\<rparr>
         \<and> (\<forall>a b. isEqual a b =
               (\<exists>s m e. fsub a b = Finite s m e
                    \<and> \<bar>real_of_finite s m e\<bar> < 4722366482869645 / 2 ^ 72))
         \<and> (\<forall>s1 m1 e1 s2 m2 e2 s m e.
               fsub (Finite s1 m1 e1) (Finite s2 m2 e2) = Finite s m e \<longrightarrow>
               \<bar>real_of_finite s m e - (real_of_finite s1 m1 e1 - real_of_finite s2 m2 e2)\<bar>
                 \<le> 2 powi e / 2)
         \<and> (4722366482869645 :: real) / 2 ^ 72 < 1 / 10 ^ 6"
proof -
  from assms(4) have "\<forall>j. 0 \<le> j \<and> j < length sol \<longrightarrow> isEqual (sol ! j) (rf ! j)"
    by (simp add: isEqual_real)
  with assms(3) have "compare_loop 0 sol rf [] =
      \<lparr>outcome = Returned True, printed = [], reads = [] @ [0..<length sol]\<rparr>"
    by (intro compare_loop_all_equal) simp_all
  with assms(1,2) have "compare fs tc =
      \<lparr>outcome = Returned True, printed = [], reads = [0..<length sol]\<rparr>"
    by (simp add: compare_unfold)
  moreover have "(4722366482869645 :: real) / 2 ^ 72 < 1 / 10 ^ 6"
    by simp
  ultimately show ?thesis
    using isEqual_real fsub_error by blast
qed

theorem compare_within_tolerance_witness:
  "fsub (double_of_decimal (Decimal 1 0)) (double_of_decimal (Decimal 10000001 (- 7)))
     = Finite True 7555786377003008 (- 76)
   \<and> \<bar>real_of_finite True 7555786377003008 (- 76)\<bar> < 4722366482869645 / 2 ^ 72
   \<and> fsub (double_of_decimal (Decimal 25 (- 1))) (double_of_decimal (Decimal 25 (- 1)))
     = Finite False 0 (- 1074)
   \<and> \<bar>real_of_finite False 0 (- 1074)\<bar> < 4722366482869645 / 2 ^ 72
   \<and> compare
        [''laplace.txt'' \<mapsto>
           [double_of_decimal (Decimal 10000001 (- 7)), double_of_decimal (Decimal 25 (- 1))]]
        \<lparr>m_gridname = ''laplace_sphere_3d.ugx'', m_reference = ''laplace.txt'',
         m_spSolution = Some [double_of_decimal (Decimal 1 0), double_of_decimal (Decimal 25 (- 1))],
         m_spReference = None\<rparr>
      = \<lparr>outcome = Returned True, printed = [], reads = [0, 1]\<rparr>
   \<and> isEqual (double_of_decimal (Decimal 1 0)) (double_of_decimal (Decimal 10000001 (- 7)))
   \<and> \<bar>real_of_finite True 7555786377003008 (- 76)
        - (real_of_finite False 4503599627370496 (- 52)
           - real_of_finite False 4503600077730459 (- 52))\<bar> \<le> 2 powi (- 76) / 2"
proof -
  let ?sol = "[double_of_decimal (Decimal 1 0), double_of_decimal (Decimal 25 (- 1))]"
  let ?rf = "[double_of_decimal (Decimal 10000001 (- 7)), double_of_decimal (Decimal 25 (- 1))]"
  let ?tc = "\<lparr>m_gridname = ''laplace_sphere_3d.ugx'', m_reference = ''laplace.txt'',
              m_spSolution = Some ?sol, m_spReference = None\<rparr>"
  have one: "double_of_decimal (Decimal 1 0) = Finite False 4503599627370496 (- 52)"
    and near: "double_of_decimal (Decimal 10000001 (- 7)) = Finite False 4503600077730459 (- 52)"
    by (simp_all add: double_eval)
  have first: "fsub (?sol ! 0) (?rf ! 0) = Finite True 7555786377003008 (- 76)"
    by (simp add: double_eval)
  have first_below: "\<bar>real_of_finite True 7555786377003008 (- 76)\<bar> < 4722366482869645 / 2 ^ 72"
    by (simp add: real_of_finite_def power_int_minus divide_simps)
  have second: "fsub (?sol ! Suc 0) (?rf ! Suc 0) = Finite False 0 (- 1074)"
    by (simp add: double_eval)
  have second_below: "\<bar>real_of_finite False 0 (- 1074)\<bar> < 4722366482869645 / 2 ^ 72"
    by (simp add: real_of_finite_def)
  have every: "\<forall>i < length ?sol. \<exists>s m e. fsub (?sol ! i) (?rf ! i) = Finite s m e
      \<and> \<bar>real_of_finite s m e\<bar> < 4722366482869645 / 2 ^ 72"
  proof (intro allI impI)
    fix i
    assume "i < length ?sol"
    then have "i = 0 \<or> i = Suc 0"
      by auto
    then show "\<exists>s m e. fsub (?sol ! i) (?rf ! i) = Finite s m e
        \<and> \<bar>real_of_finite s m e\<bar> < 4722366482869645 / 2 ^ 72"
    proof
      assume i: "i = 0"
      show ?thesis
        unfolding i using first first_below by blast
    next
      assume i: "i = Suc 0"
      show ?thesis
        unfolding i using second second_below by blast
    qed
  qed
  have given: "m_spSolution ?tc = Some ?sol" "[''laplace.txt'' \<mapsto> ?rf] (m_reference ?tc) = Some ?rf"
    "length ?sol = length ?rf"
    by simp_all
  note inst = compare_within_tolerance
    [of ?tc ?sol "[''laplace.txt'' \<mapsto> ?rf]" ?rf, OF given every]
  note run = inst [THEN conjunct1]
  note meaning = inst [THEN conjunct2, THEN conjunct1, rule_format, of "?sol ! 0" "?rf ! 0"]
  note bound = inst [THEN conjunct2, THEN conjunct2, THEN conjunct1, rule_format,
      of False 4503599627370496 "- 52" False 4503600077730459 "- 52"
         True 7555786377003008 "- 76"]
  have "fsub (Finite False 4503599627370496 (- 52)) (Finite False 4503600077730459 (- 52))
      = Finite True 7555786377003008 (- 76)"
    by (simp add: double_eval)
  then have error:
    "\<bar>real_of_finite True 7555786377003008 (- 76)
        - (real_of_finite False 4503599627370496 (- 52)
           - real_of_finite False 4503600077730459 (- 52))\<bar> \<le> 2 powi (- 76) / 2"
    by (rule bound)
  have "[0..<length ?sol] = [0, 1]"
    by (simp add: upt_conv_Cons)
  with run have run': "compare [''laplace.txt'' \<mapsto> ?rf] ?tc =
      \<lparr>outcome = Returned True, printed = [], reads = [0, 1]\<rparr>"
    by simp
  from meaning first first_below have equal: "isEqual (?sol ! 0) (?rf ! 0)"
    by blast
  from first first_below second second_below run' equal error show ?thesis
    by simp
qed

text \<open>
  C1 as it is stated speaks of the difference itself, and fails on the code where
  the rounding decides. The exact difference of \<^verbatim>\<open>0.000001\<close> and \<^verbatim>\<open>1e-30\<close> is below
  \<open>10^-6\<close> (and below the double nearest to it), but the subtraction rounds it
  back to \<^verbatim>\<open>0.000001\<close>, which is not less than the tolerance: \<^verbatim>\<open>compare()\<close> returns
  false.
\<close>

theorem compare_exact_difference_counterexample:
  "double_of_decimal (Decimal 1 (- 6)) = Finite False 4722366482869645 (- 72)
   \<and> double_of_decimal (Decimal 1 (- 30)) = Finite False 5708990770823840 (- 152)
   \<and> \<bar>real_of_finite False 4722366482869645 (- 72)
        - real_of_finite False 5708990770823840 (- 152)\<bar> < 1 / 10 ^ 6
   \<and> length [double_of_decimal (Decimal 1 (- 6))] = length [double_of_decimal (Decimal 1 (- 30))]
   \<and> compare
        [''laplace.txt'' \<mapsto> [double_of_decimal (Decimal 1 (- 30))]]
        \<lparr>m_gridname = ''laplace_sphere_3d.ugx'', m_reference = ''laplace.txt'',
         m_spSolution = Some [double_of_decimal (Decimal 1 (- 6))],
         m_spReference = None\<rparr>
      = \<lparr>outcome = Returned False, printed = [''Not equal at 0''], reads = [0]\<rparr>"
proof -
  have a: "double_of_decimal (Decimal 1 (- 6)) = Finite False 4722366482869645 (- 72)"
    and b: "double_of_decimal (Decimal 1 (- 30)) = Finite False 5708990770823840 (- 152)"
    by (simp_all add: double_eval)
  have exact: "\<bar>real_of_finite False 4722366482869645 (- 72)
        - real_of_finite False 5708990770823840 (- 152)\<bar> < 1 / 10 ^ 6"
    by (simp add: real_of_finite_def power_int_minus divide_simps)
  have differ: "\<not> isEqual (double_of_decimal (Decimal 1 (- 6)))
                        (double_of_decimal (Decimal 1 (- 30)))"
    by (simp add: double_eval)
  have "compare
        [''laplace.txt'' \<mapsto> [double_of_decimal (Decimal 1 (- 30))]]
        \<lparr>m_gridname = ''laplace_sphere_3d.ugx'', m_reference = ''laplace.txt'',
         m_spSolution = Some [double_of_decimal (Decimal 1 (- 6))],
         m_spReference = None\<rparr>
      = \<lparr>outcome = Returned False, printed = [''Not equal at 0''], reads = [0]\<rparr>"
    using differ
    by (simp add: compare_def read_reference_def compare_loop.simps string_of_nat.simps)
  with a b exact show ?thesis
    by simp
qed

text \<open>
  C2, as amended. For every pair of equal-length sequences of doubles in which at
  least one corresponding pair fails the test \<^verbatim>\<open>abs(a - b) < 0.000001\<close>,
  \<^verbatim>\<open>compare()\<close> returns false and the index it prints is the lowest index at which
  the test fails. A pair fails the test when its difference is 1e-6 or more, and
  also when its difference is NaN.
\<close>

theorem compare_first_failure:
  assumes "m_spSolution tc = Some sol" and "fs (m_reference tc) = Some rf"
    and "length sol = length rf"
    and "\<exists>i < length sol. \<not> isEqual (sol ! i) (rf ! i)"
  shows "(\<exists>k < length sol. \<not> isEqual (sol ! k) (rf ! k)
            \<and> (\<forall>j < k. isEqual (sol ! j) (rf ! j))
            \<and> compare fs tc =
                \<lparr>outcome = Returned False,
                 printed = [''Not equal at '' @ string_of_nat k],
                 reads = [0..<Suc k]\<rparr>)
         \<and> (\<forall>a b. (\<not> isEqual a b) = (fge (fabs (fsub a b)) tolerance \<or> fsub a b = NaN))"
proof -
  from assms(4) obtain k where k: "k < length sol" "\<not> isEqual (sol ! k) (rf ! k)"
      and before: "\<forall>j < k. isEqual (sol ! j) (rf ! j)"
    using first_mismatch_exists [of "length sol" "\<lambda>j. isEqual (sol ! j) (rf ! j)"]
    by blast
  have "compare_loop 0 sol rf [] =
          \<lparr>outcome = Returned False,
           printed = [''Not equal at '' @ string_of_nat k],
           reads = [] @ [0..<Suc k]\<rparr>"
    using k before assms(3) by (intro compare_loop_first_mismatch) simp_all
  with assms(1,2) have "compare fs tc =
          \<lparr>outcome = Returned False,
           printed = [''Not equal at '' @ string_of_nat k],
           reads = [0..<Suc k]\<rparr>"
    by (simp add: compare_unfold)
  with k before show ?thesis
    using not_isEqual_iff by blast
qed

theorem compare_first_failure_witness:
  "isEqual (double_of_decimal (Decimal 1 0)) (double_of_decimal (Decimal 10000001 (- 7)))
   \<and> \<not> isEqual (double_of_decimal (Decimal 25 (- 1))) (double_of_decimal (Decimal 35 (- 1)))
   \<and> compare
        [''laplace.txt'' \<mapsto>
           [double_of_decimal (Decimal 10000001 (- 7)), double_of_decimal (Decimal 35 (- 1)),
            double_of_decimal (Decimal 1 0)]]
        \<lparr>m_gridname = ''laplace_sphere_3d.ugx'', m_reference = ''laplace.txt'',
         m_spSolution =
           Some [double_of_decimal (Decimal 1 0), double_of_decimal (Decimal 25 (- 1)),
                 double_of_decimal (Decimal 7 0)],
         m_spReference = None\<rparr>
      = \<lparr>outcome = Returned False, printed = [''Not equal at 1''], reads = [0, 1]\<rparr>"
proof -
  let ?sol = "[double_of_decimal (Decimal 1 0), double_of_decimal (Decimal 25 (- 1)),
               double_of_decimal (Decimal 7 0)]"
  let ?rf = "[double_of_decimal (Decimal 10000001 (- 7)), double_of_decimal (Decimal 35 (- 1)),
              double_of_decimal (Decimal 1 0)]"
  let ?fs = "[''laplace.txt'' \<mapsto> ?rf]"
  let ?tc = "\<lparr>m_gridname = ''laplace_sphere_3d.ugx'', m_reference = ''laplace.txt'',
              m_spSolution = Some ?sol, m_spReference = None\<rparr>"
  have first: "isEqual (?sol ! 0) (?rf ! 0)"
    by (simp add: double_eval)
  have second: "\<not> isEqual (?sol ! 1) (?rf ! 1)"
    by (simp add: double_eval)
  have some: "\<exists>i < length ?sol. \<not> isEqual (?sol ! i) (?rf ! i)"
    using second by (intro exI [of _ 1]) simp
  from compare_first_failure [of ?tc ?sol ?fs ?rf, OF _ _ _ some]
  obtain k where k: "\<not> isEqual (?sol ! k) (?rf ! k)"
      and before: "\<forall>j < k. isEqual (?sol ! j) (?rf ! j)"
      and res: "compare ?fs ?tc =
          \<lparr>outcome = Returned False,
           printed = [''Not equal at '' @ string_of_nat k],
           reads = [0..<Suc k]\<rparr>"
    by auto
  have "k \<noteq> 0"
    using k first by (intro notI) simp
  moreover have "\<not> 1 < k"
    using before second by blast
  ultimately have "k = 1"
    by simp
  with res have "compare ?fs ?tc =
      \<lparr>outcome = Returned False, printed = [''Not equal at 1''], reads = [0, 1]\<rparr>"
    by (simp add: string_of_nat.simps upt_conv_Cons)
  with first second show ?thesis
    by simp
qed

text \<open>
  C2 as it is stated fails when a difference is NaN. With the solution
  \<open>[NaN, 5.0]\<close> and the reference \<open>[1.0, 1.0]\<close> the lowest index at which the
  difference is 1e-6 or more is 1, while \<^verbatim>\<open>compare()\<close> prints the index 0.
\<close>

theorem compare_lowest_difference_counterexample:
  "length [NaN, double_of_decimal (Decimal 5 0)]
     = length [double_of_decimal (Decimal 1 0), double_of_decimal (Decimal 1 0)]
   \<and> \<not> fge (fabs (fsub NaN (double_of_decimal (Decimal 1 0)))) tolerance
   \<and> fge (fabs (fsub (double_of_decimal (Decimal 5 0)) (double_of_decimal (Decimal 1 0))))
          tolerance
   \<and> compare
        [''laplace.txt'' \<mapsto> [double_of_decimal (Decimal 1 0), double_of_decimal (Decimal 1 0)]]
        \<lparr>m_gridname = ''laplace_sphere_3d.ugx'', m_reference = ''laplace.txt'',
         m_spSolution = Some [NaN, double_of_decimal (Decimal 5 0)],
         m_spReference = None\<rparr>
      = \<lparr>outcome = Returned False, printed = [''Not equal at 0''], reads = [0]\<rparr>"
proof -
  have nan: "\<not> isEqual NaN (double_of_decimal (Decimal 1 0))"
    by (simp add: isEqual_def)
  have below: "\<not> fge (fabs (fsub NaN (double_of_decimal (Decimal 1 0)))) tolerance"
    by simp
  have above: "fge (fabs (fsub (double_of_decimal (Decimal 5 0)) (double_of_decimal (Decimal 1 0))))
          tolerance"
    by (simp add: double_eval)
  have "compare
        [''laplace.txt'' \<mapsto> [double_of_decimal (Decimal 1 0), double_of_decimal (Decimal 1 0)]]
        \<lparr>m_gridname = ''laplace_sphere_3d.ugx'', m_reference = ''laplace.txt'',
         m_spSolution = Some [NaN, double_of_decimal (Decimal 5 0)],
         m_spReference = None\<rparr>
      = \<lparr>outcome = Returned False, printed = [''Not equal at 0''], reads = [0]\<rparr>"
    using nan
    by (simp add: compare_def read_reference_def compare_loop.simps string_of_nat.simps)
  with below above show ?thesis
    by simp
qed

text \<open>
  C3, as amended. \<^verbatim>\<open>compare()\<close> validates no length. It reads both sequences at
  the indices \<open>0, 1, ...\<close> in order and stops at the first pair that fails the
  test: when it returns true it has read exactly the indices below the length of
  the solution, and when it returns false it has read exactly the indices up to
  and including the first one whose pair fails the test. When the reference has at
  least as many entries as the solution, every access is in bounds and the call
  returns. When the reference is shorter, the reference is accessed out of bounds,
  at its length, exactly when no pair inside the reference fails the test.
\<close>

theorem compare_bounds:
  assumes "m_spSolution tc = Some sol" and "fs (m_reference tc) = Some rf"
  shows "(\<exists>c. c \<le> length sol \<and> c \<le> length rf \<and> reads (compare fs tc) = [0..<c])
         \<and> (outcome (compare fs tc) = Returned True \<longrightarrow> reads (compare fs tc) = [0..<length sol])
         \<and> (outcome (compare fs tc) = Returned False \<longrightarrow>
              (\<exists>k. k < length sol \<and> k < length rf \<and> \<not> isEqual (sol ! k) (rf ! k)
                   \<and> (\<forall>j < k. isEqual (sol ! j) (rf ! j))
                   \<and> reads (compare fs tc) = [0..<Suc k]))
         \<and> (length sol \<le> length rf \<longrightarrow> (\<exists>b. outcome (compare fs tc) = Returned b))
         \<and> (length rf < length sol \<longrightarrow>
              (outcome (compare fs tc) = OutOfBounds (length rf))
                = (\<forall>j < length rf. isEqual (sol ! j) (rf ! j)))"
proof -
  have unfold: "compare fs tc = compare_loop 0 sol rf []"
    using assms by (rule compare_unfold)
  have "\<exists>c. c \<le> length sol \<and> c \<le> length rf \<and> reads (compare fs tc) = [0..<c]"
    unfolding unfold by (rule compare_loop_reads)
  moreover have "outcome (compare fs tc) = Returned True \<longrightarrow>
      reads (compare fs tc) = [0..<length sol]"
    unfolding unfold using compare_loop_cases [of sol rf] by auto
  moreover have "outcome (compare fs tc) = Returned False \<longrightarrow>
      (\<exists>k. k < length sol \<and> k < length rf \<and> \<not> isEqual (sol ! k) (rf ! k)
           \<and> (\<forall>j < k. isEqual (sol ! j) (rf ! j))
           \<and> reads (compare fs tc) = [0..<Suc k])"
    unfolding unfold using compare_loop_cases [of sol rf] by auto
  moreover have "length sol \<le> length rf \<longrightarrow> (\<exists>b. outcome (compare fs tc) = Returned b)"
    unfolding unfold using compare_loop_cases [of sol rf] by auto
  moreover have "length rf < length sol \<longrightarrow>
      (outcome (compare fs tc) = OutOfBounds (length rf))
        = (\<forall>j < length rf. isEqual (sol ! j) (rf ! j))"
    unfolding unfold using compare_loop_cases [of sol rf] by auto
  ultimately show ?thesis
    by blast
qed

theorem compare_bounds_witness:
  "length [double_of_decimal (Decimal 10000001 (- 7))]
     < length [double_of_decimal (Decimal 1 0), double_of_decimal (Decimal 25 (- 1))]
   \<and> isEqual (double_of_decimal (Decimal 1 0)) (double_of_decimal (Decimal 10000001 (- 7)))
   \<and> outcome (compare
        [''laplace.txt'' \<mapsto> [double_of_decimal (Decimal 10000001 (- 7))]]
        \<lparr>m_gridname = ''laplace_sphere_3d.ugx'', m_reference = ''laplace.txt'',
         m_spSolution = Some [double_of_decimal (Decimal 1 0), double_of_decimal (Decimal 25 (- 1))],
         m_spReference = None\<rparr>) = OutOfBounds 1
   \<and> length [double_of_decimal (Decimal 1 0)]
     \<le> length [double_of_decimal (Decimal 10000001 (- 7)), double_of_decimal (Decimal 25 (- 1))]
   \<and> (\<exists>b. outcome (compare
        [''laplace.txt'' \<mapsto>
           [double_of_decimal (Decimal 10000001 (- 7)), double_of_decimal (Decimal 25 (- 1))]]
        \<lparr>m_gridname = ''laplace_sphere_3d.ugx'', m_reference = ''laplace.txt'',
         m_spSolution = Some [double_of_decimal (Decimal 1 0)],
         m_spReference = None\<rparr>) = Returned b)"
proof -
  let ?long = "[double_of_decimal (Decimal 1 0), double_of_decimal (Decimal 25 (- 1))]"
  let ?short = "[double_of_decimal (Decimal 10000001 (- 7))]"
  let ?tc = "\<lparr>m_gridname = ''laplace_sphere_3d.ugx'', m_reference = ''laplace.txt'',
              m_spSolution = Some ?long, m_spReference = None\<rparr>"
  let ?sol' = "[double_of_decimal (Decimal 1 0)]"
  let ?rf' = "[double_of_decimal (Decimal 10000001 (- 7)), double_of_decimal (Decimal 25 (- 1))]"
  let ?tc' = "\<lparr>m_gridname = ''laplace_sphere_3d.ugx'', m_reference = ''laplace.txt'',
               m_spSolution = Some ?sol', m_spReference = None\<rparr>"
  have first: "isEqual (double_of_decimal (Decimal 1 0)) (double_of_decimal (Decimal 10000001 (- 7)))"
    by (simp add: double_eval)
  then have inside: "\<forall>j < length ?short. isEqual (?long ! j) (?short ! j)"
    by simp
  have "outcome (compare [''laplace.txt'' \<mapsto> ?short] ?tc) = OutOfBounds (length ?short)"
    using compare_bounds [of ?tc ?long "[''laplace.txt'' \<mapsto> ?short]" ?short] inside
    by simp
  moreover have "\<exists>b. outcome (compare [''laplace.txt'' \<mapsto> ?rf'] ?tc') = Returned b"
    using compare_bounds [of ?tc' ?sol' "[''laplace.txt'' \<mapsto> ?rf']" ?rf']
    by simp
  ultimately show ?thesis
    using first by simp
qed

text \<open>
  C3 as it is stated fails where a pair inside a shorter reference fails the test.
  With the solution \<open>[5.0, 1.0]\<close> and the reference \<open>[1.0]\<close> the call returns
  false after reading index 0 only: no access is out of bounds, and index 1 of the
  solution is never read.
\<close>

theorem compare_short_reference_counterexample:
  "length [double_of_decimal (Decimal 1 0)]
     < length [double_of_decimal (Decimal 5 0), double_of_decimal (Decimal 1 0)]
   \<and> compare
        [''laplace.txt'' \<mapsto> [double_of_decimal (Decimal 1 0)]]
        \<lparr>m_gridname = ''laplace_sphere_3d.ugx'', m_reference = ''laplace.txt'',
         m_spSolution = Some [double_of_decimal (Decimal 5 0), double_of_decimal (Decimal 1 0)],
         m_spReference = None\<rparr>
      = \<lparr>outcome = Returned False, printed = [''Not equal at 0''], reads = [0]\<rparr>"
proof -
  have differ: "\<not> isEqual (double_of_decimal (Decimal 5 0)) (double_of_decimal (Decimal 1 0))"
    by (simp add: double_eval)
  have "compare
        [''laplace.txt'' \<mapsto> [double_of_decimal (Decimal 1 0)]]
        \<lparr>m_gridname = ''laplace_sphere_3d.ugx'', m_reference = ''laplace.txt'',
         m_spSolution = Some [double_of_decimal (Decimal 5 0), double_of_decimal (Decimal 1 0)],
         m_spReference = None\<rparr>
      = \<lparr>outcome = Returned False, printed = [''Not equal at 0''], reads = [0]\<rparr>"
    using differ
    by (simp add: compare_def read_reference_def compare_loop.simps string_of_nat.simps)
  then show ?thesis
    by simp
qed

text \<open>
  C10. The result of \<^verbatim>\<open>compare()\<close> depends only on the solution and on the first
  \<open>length sol\<close> entries of the reference: two references that agree on these
  entries give the same result (also when they are shorter than the solution).
  With an empty solution the call returns true whatever the reference is, and no
  index at or beyond the length of the solution is ever read.
\<close>

theorem compare_depends_on_prefix:
  assumes "m_spSolution tc = Some sol"
    and "fs (m_reference tc) = Some rf" and "fs' (m_reference tc) = Some rf'"
    and "take (length sol) rf = take (length sol) rf'"
  shows "compare fs tc = compare fs' tc
         \<and> (sol = [] \<longrightarrow> compare fs tc = \<lparr>outcome = Returned True, printed = [], reads = []\<rparr>)
         \<and> set (reads (compare fs tc)) \<subseteq> {..<length sol}"
proof -
  have unfold: "compare fs tc = compare_loop 0 sol rf []"
    using assms(1,2) by (rule compare_unfold)
  have unfold': "compare fs' tc = compare_loop 0 sol rf' []"
    using assms(1,3) by (rule compare_unfold)
  have "compare_loop 0 sol rf [] = compare_loop 0 sol (take (length sol) rf) []"
    by (rule compare_loop_take)
  also have "\<dots> = compare_loop 0 sol (take (length sol) rf') []"
    using assms(4) by simp
  also have "\<dots> = compare_loop 0 sol rf' []"
    by (rule compare_loop_take [symmetric])
  finally have same: "compare fs tc = compare fs' tc"
    using unfold unfold' by simp
  have empty: "sol = [] \<longrightarrow>
      compare fs tc = \<lparr>outcome = Returned True, printed = [], reads = []\<rparr>"
    unfolding unfold by (subst compare_loop.simps) simp
  obtain c where "c \<le> length sol" and "reads (compare fs tc) = [0..<c]"
    unfolding unfold using compare_loop_reads [of sol rf] by blast
  then have "set (reads (compare fs tc)) \<subseteq> {..<length sol}"
    by auto
  with same empty show ?thesis
    by blast
qed

theorem compare_depends_on_prefix_witness:
  "take (length [double_of_decimal (Decimal 1 0)])
        [double_of_decimal (Decimal 10000001 (- 7)), double_of_decimal (Decimal 25 (- 1))]
     = take (length [double_of_decimal (Decimal 1 0)])
        [double_of_decimal (Decimal 10000001 (- 7)), double_of_decimal (Decimal 7 0), NaN]
   \<and> compare
        [''laplace.txt'' \<mapsto>
           [double_of_decimal (Decimal 10000001 (- 7)), double_of_decimal (Decimal 25 (- 1))]]
        \<lparr>m_gridname = ''laplace_sphere_3d.ugx'', m_reference = ''laplace.txt'',
         m_spSolution = Some [double_of_decimal (Decimal 1 0)], m_spReference = None\<rparr>
     = compare
        [''laplace.txt'' \<mapsto>
           [double_of_decimal (Decimal 10000001 (- 7)), double_of_decimal (Decimal 7 0), NaN]]
        \<lparr>m_gridname = ''laplace_sphere_3d.ugx'', m_reference = ''laplace.txt'',
         m_spSolution = Some [double_of_decimal (Decimal 1 0)], m_spReference = None\<rparr>
   \<and> compare
        [''laplace.txt'' \<mapsto> [double_of_decimal (Decimal 7 0), NaN]]
        \<lparr>m_gridname = ''laplace_sphere_3d.ugx'', m_reference = ''laplace.txt'',
         m_spSolution = Some [], m_spReference = None\<rparr>
     = \<lparr>outcome = Returned True, printed = [], reads = []\<rparr>"
proof -
  let ?sol = "[double_of_decimal (Decimal 1 0)]"
  let ?rf = "[double_of_decimal (Decimal 10000001 (- 7)), double_of_decimal (Decimal 25 (- 1))]"
  let ?rf' = "[double_of_decimal (Decimal 10000001 (- 7)), double_of_decimal (Decimal 7 0), NaN]"
  let ?tc = "\<lparr>m_gridname = ''laplace_sphere_3d.ugx'', m_reference = ''laplace.txt'',
              m_spSolution = Some ?sol, m_spReference = None\<rparr>"
  let ?any = "[double_of_decimal (Decimal 7 0), NaN]"
  let ?none = "\<lparr>m_gridname = ''laplace_sphere_3d.ugx'', m_reference = ''laplace.txt'',
               m_spSolution = Some [], m_spReference = None\<rparr>"
  have agree: "take (length ?sol) ?rf = take (length ?sol) ?rf'"
    by simp
  have "compare [''laplace.txt'' \<mapsto> ?rf] ?tc = compare [''laplace.txt'' \<mapsto> ?rf'] ?tc"
    using compare_depends_on_prefix
      [of ?tc ?sol "[''laplace.txt'' \<mapsto> ?rf]" ?rf "[''laplace.txt'' \<mapsto> ?rf']" ?rf', OF _ _ _ agree]
    by simp
  moreover have "compare [''laplace.txt'' \<mapsto> ?any] ?none =
      \<lparr>outcome = Returned True, printed = [], reads = []\<rparr>"
    using compare_depends_on_prefix
      [of ?none "[]" "[''laplace.txt'' \<mapsto> ?any]" ?any "[''laplace.txt'' \<mapsto> ?any]" ?any]
    by simp
  ultimately show ?thesis
    using agree by simp
qed

section \<open>The claims about the test cases\<close>

text \<open>
  C8. \<^verbatim>\<open>run()\<close> of the base class \<^verbatim>\<open>Testcase\<close>, whatever grid and reference file
  names the test case was constructed with, raises the fatal error with the
  message "run() function of testcase not implemented." and never returns
  normally.
\<close>

theorem Testcase_run_throws:
  "Testcase_run (new_Testcase grid reference)
     = Inl (UGError ''run() function of testcase not implemented.'')
   \<and> Testcase_run tc = Inl (UGError ''run() function of testcase not implemented.'')
   \<and> Testcase_run tc \<noteq> Inr ()"
  by (simp add: Testcase_run_def UG_THROW_def)

lemma refinements_refine_loop: "refinements (refine_loop i numRefs) = nat (numRefs - i)"
proof (induction i numRefs rule: refine_loop.induct)
  case (1 i numRefs)
  show ?case
  proof (cases "i < numRefs")
    case True
    then have "refinements (refine_loop i numRefs) = Suc (refinements (refine_loop (i + 1) numRefs))"
      by (subst refine_loop.simps) (simp add: refinements_def)
    also have "\<dots> = Suc (nat (numRefs - (i + 1)))"
      using "1.IH" [OF True] by simp
    also have "\<dots> = nat (numRefs - i)"
      using True by simp
    finally show ?thesis .
  next
    case False
    then show ?thesis
      by (subst refine_loop.simps) (simp add: refinements_def)
  qed
qed

lemma refinements_refine: "refinements (refine numRefs) = nat numRefs"
proof -
  have "refinements (refine numRefs) = refinements (refine_loop 0 numRefs)"
    by (simp add: refine_def refinements_def)
  then show ?thesis
    by (simp add: refinements_refine_loop)
qed

lemma refinements_append: "refinements (xs @ ys) = refinements xs + refinements ys"
  by (simp add: refinements_def)

lemma refinements_Nil: "refinements [] = 0"
  by (simp add: refinements_def)

lemma refinements_Cons:
  "refinements (c # cs) =
     (if c = Call ''GlobalMultiGridRefiner::refine'' [] then Suc (refinements cs)
      else refinements cs)"
  by (simp add: refinements_def)

lemma arguments_append: "arguments name (xs @ ys) = arguments name xs @ arguments name ys"
proof (induction xs)
  case Nil
  show ?case by simp
next
  case (Cons c xs)
  then show ?case by (cases c) simp
qed

lemma arguments_refine_loop:
  "name \<noteq> ''GlobalMultiGridRefiner::refine'' \<Longrightarrow> arguments name (refine_loop i numRefs) = []"
proof (induction i numRefs rule: refine_loop.induct)
  case (1 i numRefs)
  show ?case
  proof (cases "i < numRefs")
    case True
    with "1.IH" "1.prems" show ?thesis
      by (subst refine_loop.simps) auto
  next
    case False
    then show ?thesis
      by (subst refine_loop.simps) simp
  qed
qed

lemma arguments_refine:
  "name \<noteq> ''GlobalMultiGridRefiner::refine'' \<Longrightarrow> name \<noteq> ''GlobalMultiGridRefiner''
   \<Longrightarrow> arguments name (refine numRefs) = []"
  by (simp add: refine_def arguments_refine_loop)

text \<open>
  C9. \<^verbatim>\<open>refine(numRefs)\<close> runs the refinement step of the framework exactly
  \<^verbatim>\<open>numRefs\<close> times, and not at all when \<^verbatim>\<open>numRefs\<close> is zero or negative.
  \<^verbatim>\<open>Laplace::run()\<close> refines the loaded mesh exactly 4 times, and it passes the fixed
  literals to the solver: damping 0.66 to the Jacobi smoother, cycle type "V",
  3 pre-smoothing and 3 post-smoothing steps, and to the convergence check the
  iteration cap 100, the absolute tolerance 1e-12 and the relative reduction 1e-6
  (its first three arguments).
\<close>

theorem Laplace_run_configuration:
  "refinements (refine numRefs) = nat numRefs
   \<and> (numRefs \<le> 0 \<longrightarrow> refinements (refine numRefs) = 0)
   \<and> refinements (fst (Laplace_run vals tc)) = 4
   \<and> arguments ''Jacobi'' (fst (Laplace_run vals tc)) = [[NumArg (Decimal 66 (- 2))]]
   \<and> arguments ''AssembledMultiGridCycle::set_cycle_type'' (fst (Laplace_run vals tc))
       = [[StrArg ''V'']]
   \<and> arguments ''AssembledMultiGridCycle::set_num_presmooth'' (fst (Laplace_run vals tc))
       = [[IntArg 3]]
   \<and> arguments ''AssembledMultiGridCycle::set_num_postsmooth'' (fst (Laplace_run vals tc))
       = [[IntArg 3]]
   \<and> arguments ''StdConvCheck'' (fst (Laplace_run vals tc))
       = [[IntArg 100, NumArg (Decimal 1 (- 12)), NumArg (Decimal 1 (- 6)), BoolArg True]]"
proof -
  have count: "refinements (refine numRefs) = nat numRefs"
    by (rule refinements_refine)
  then have none: "numRefs \<le> 0 \<longrightarrow> refinements (refine numRefs) = 0"
    by simp
  have four: "refinements (fst (Laplace_run vals tc)) = 4"
    by (simp add: Laplace_run_def refinements_append refinements_Cons refinements_Nil
        refinements_refine)
  have jacobi: "arguments ''Jacobi'' (fst (Laplace_run vals tc)) = [[NumArg (Decimal 66 (- 2))]]"
    by (simp add: Laplace_run_def arguments_append arguments_refine)
  have cycle: "arguments ''AssembledMultiGridCycle::set_cycle_type'' (fst (Laplace_run vals tc))
       = [[StrArg ''V'']]"
    by (simp add: Laplace_run_def arguments_append arguments_refine)
  have pre: "arguments ''AssembledMultiGridCycle::set_num_presmooth'' (fst (Laplace_run vals tc))
       = [[IntArg 3]]"
    by (simp add: Laplace_run_def arguments_append arguments_refine)
  have post: "arguments ''AssembledMultiGridCycle::set_num_postsmooth'' (fst (Laplace_run vals tc))
       = [[IntArg 3]]"
    by (simp add: Laplace_run_def arguments_append arguments_refine)
  have conv: "arguments ''StdConvCheck'' (fst (Laplace_run vals tc))
       = [[IntArg 100, NumArg (Decimal 1 (- 12)), NumArg (Decimal 1 (- 6)), BoolArg True]]"
    by (simp add: Laplace_run_def arguments_append arguments_refine)
  from count none four jacobi cycle pre post conv show ?thesis
    by blast
qed

theorem Laplace_run_configuration_witness:
  "refinements (refine 4) = 4 \<and> (- 3 :: int) \<le> 0 \<and> refinements (refine (- 3)) = 0
   \<and> refinements (fst (Laplace_run [] (new_Testcase ''laplace_sphere_3d.ugx'' ''laplace.txt''))) = 4"
  using Laplace_run_configuration [of 4 "[]" "new_Testcase ''laplace_sphere_3d.ugx'' ''laplace.txt''"]
    Laplace_run_configuration [of "- 3"]
  by simp

section \<open>The claims about the vector operations\<close>

lemma nth_components: "i < dim \<Longrightarrow> map f [0..<dim] ! i = f i"
  by simp

lemma nth_zero_vector: "i < dim \<Longrightarrow> zero_vector ! i = 0"
  by (simp add: zero_vector_def)

text \<open>
  C4. For vectors \<open>a\<close> and \<open>b\<close> of the fixed dimension, \<^verbatim>\<open>VecAppend(a, b)\<close> leaves in
  each component of \<open>a\<close> its prior value plus the component of \<open>b\<close>; with two
  and with three added vectors the result is the prior value of the output plus
  the sum of the added terms.
\<close>

theorem VecAppend_accumulates:
  assumes "i < dim"
    and "length a = dim" and "length b = dim" and "length c = dim" and "length vOut = dim"
  shows "VecAppend a b ! i = a ! i + b ! i
         \<and> VecAppend2 vOut a b ! i = vOut ! i + (a ! i + b ! i)
         \<and> VecAppend3 vOut a b c ! i = vOut ! i + (a ! i + b ! i + c ! i)"
  using assms(1) by (simp add: VecAppend_def VecAppend2_def VecAppend3_def nth_components)

theorem VecAppend_accumulates_witness:
  "(1::nat) < dim \<and> length [1, 2, 3 :: int] = dim
   \<and> VecAppend [1, 2, 3 :: int] [10, 20, 30] ! 1 = 22
   \<and> VecAppend2 [1, 2, 3 :: int] [10, 20, 30] [100, 200, 300] ! 1 = 222
   \<and> VecAppend3 [1, 2, 3 :: int] [10, 20, 30] [100, 200, 300] [1000, 2000, 3000] ! 1 = 2222"
proof -
  have i: "(1::nat) < dim"
    by (simp add: dim_def)
  have len: "length [1, 2, 3 :: int] = dim" "length [10, 20, 30 :: int] = dim"
    "length [100, 200, 300 :: int] = dim" "length [1000, 2000, 3000 :: int] = dim"
    by (simp_all add: dim_def)
  from VecAppend_accumulates [OF i len(1) len(2) len(3) len(1)]
    VecAppend_accumulates [OF i len(2) len(3) len(4) len(1)]
  show ?thesis
    using i len(1) by simp
qed




text \<open>
  C6. For a vector \<open>a\<close> of the fixed dimension and a power \<open>p\<close>, each component
  of the output of \<^verbatim>\<open>VecPow(c, a, p)\<close> is the component of \<open>a\<close> raised to the power
  \<open>p\<close> by the power function of the element type.
\<close>

theorem VecPow_componentwise:
  assumes "i < dim"
  shows "VecPow pow a p ! i = pow (a ! i) p"
  using assms by (simp add: VecPow_def nth_components)

theorem VecPow_componentwise_witness:
  "(1::nat) < dim \<and> VecPow (\<lambda>x p. x ^ nat p) [3, 5, 7 :: int] 2 ! 1 = 25"
proof -
  have i: "(1::nat) < dim"
    by (simp add: dim_def)
  from VecPow_componentwise [of 1 "\<lambda>x p. x ^ nat p" "[3, 5, 7 :: int]" 2, OF i]
  show ?thesis
    using i by simp
qed

text \<open>
  C7. For vectors of the fixed dimension, \<^verbatim>\<open>VecAdd\<close> with two, three and four
  operands yields in every component the sum of the operands' components, and
  \<^verbatim>\<open>VecSubtract\<close> yields the difference.
\<close>

theorem VecAdd_VecSubtract_componentwise:
  fixes a b c d :: "'a::{plus,minus} list"
  assumes "i < dim"
    and "length a = dim" and "length b = dim" and "length c = dim" and "length d = dim"
  shows "VecAdd a b ! i = a ! i + b ! i
         \<and> VecAdd3 a b c ! i = a ! i + b ! i + c ! i
         \<and> VecAdd4 a b c d ! i = a ! i + b ! i + c ! i + d ! i
         \<and> VecSubtract a b ! i = a ! i - b ! i"
  using assms(1)
  by (simp add: VecAdd_def VecAdd3_def VecAdd4_def VecSubtract_def nth_components)

theorem VecAdd_VecSubtract_componentwise_witness:
  "(0::nat) < dim \<and> length [1, 2, 3 :: int] = dim
   \<and> VecAdd [1, 2, 3 :: int] [10, 20, 30] ! 0 = 11
   \<and> VecAdd3 [1, 2, 3 :: int] [10, 20, 30] [100, 200, 300] ! 0 = 111
   \<and> VecAdd4 [1, 2, 3 :: int] [10, 20, 30] [100, 200, 300] [1000, 2000, 3000] ! 0 = 1111
   \<and> VecSubtract [1, 2, 3 :: int] [10, 20, 30] ! 0 = - 9"
proof -
  have i: "(0::nat) < dim"
    by (simp add: dim_def)
  have len: "length [1, 2, 3 :: int] = dim" "length [10, 20, 30 :: int] = dim"
    "length [100, 200, 300 :: int] = dim" "length [1000, 2000, 3000 :: int] = dim"
    by (simp_all add: dim_def)
  from VecAdd_VecSubtract_componentwise [OF i len]
  show ?thesis
    using i len(1) by simp
qed

section \<open>The tests pass on every input\<close>

text \<open>
  With the operations of the framework as modelled above, every \<^verbatim>\<open>EXPECT_EQ\<close> of
  these tests holds, whatever components \<^verbatim>\<open>reset()\<close> draws for \<open>a\<close> and \<open>b\<close>.
  The tests that start from a zero vector need \<open>0 + x = x\<close> of the element
  arithmetic.
\<close>

lemma test_VecAppend_passes:
  fixes a b :: "'a::{plus,zero} list"
  assumes "\<And>x :: 'a. 0 + x = x" and "length a = dim" and "length b = dim"
  shows "\<forall>r \<in> set (test_VecAppend a b). r"
  using assms
  by (auto simp add: test_VecAppend_def Let_def VecCopy_def VecAppend_def VecAppend2_def
      VecAppend3_def VecAppend4_def nth_zero_vector)

lemma test_VecScaleAppend_passes:
  fixes a b :: "'a::{plus,times,zero,numeral} list"
  assumes "\<And>x :: 'a. 0 + x = x" and "length a = dim" and "length b = dim"
  shows "\<forall>r \<in> set (test_VecScaleAppend a b). r"
  using assms
  by (auto simp add: test_VecScaleAppend_def Let_def VecScaleAppend_def VecScaleAppend2_def
      VecScaleAppend3_def VecScaleAppend4_def nth_zero_vector)

lemma test_VecAdd_passes: "\<forall>r \<in> set (test_VecAdd a b). r"
  by (auto simp add: test_VecAdd_def Let_def VecAdd_def VecAdd3_def VecAdd4_def)

lemma test_VecSub_passes: "\<forall>r \<in> set (test_VecSub a b). r"
  by (auto simp add: test_VecSub_def Let_def VecSubtract_def)

end
